theory Spec2Isabelle
  imports Complex_Main "HOL-Library.Sublist" "HOL-Library.Log_Nat"
begin

section \<open>The deposit pipeline of \<open>src/app/api/verify-slip/route.ts\<close>\<close>

text \<open>
  The route handler \<open>POST\<close> verifies an uploaded bank-transfer slip with an external
  provider, checks the receiver, the reuse of the transfer reference and the user's daily
  deposit limit, and then records the payment and credits the balance in one database
  transaction. The model is a shallow embedding: every function of the file is a HOL
  function of the same name; the database is an explicit \<open>store\<close> that is passed in and
  returned; everything the handler awaits from outside (the session, the multipart body,
  the provider, the notification sink, the clock, database failures) is a field of an
  environment \<open>env\<close>; a thrown exception is the left injection of a sum.

  An amount is the decimal it is written as, in the provider's JSON and in the columns of
  the store, a rational number. The handler's own arithmetic, in \<open>checkDepositLimits\<close>,
  is the arithmetic of JavaScript numbers: each decimal is first rounded to the nearest
  double, and so is each sum. \<open>amount.toString()\<close> gives back the decimal an amount was
  read from, as it does for every decimal of at most 15 significant digits. Strings are
  byte strings; the Thai literals of the source are their UTF-8 bytes.
\<close>

subsection \<open>Data\<close>

type_synonym money = rat
type_synonym time = int

subsection \<open>JavaScript numbers\<close>

text \<open>A JavaScript number is a double: a finite value, an infinity or NaN. The sign of
  zero is not kept; no operation of the handler tells the two zeros apart.\<close>

datatype number = Finite rat | PosInfinity | NegInfinity | NaN

definition pow2 :: "int \<Rightarrow> rat" where
  "pow2 e = (if 0 \<le> e then 2 ^ nat e else 1 / 2 ^ nat (- e))"

text \<open>For a positive \<open>x\<close>, the exponent \<open>e\<close> with \<open>2^e \<le> x < 2^(e+1)\<close>: the difference of
  the bit lengths of numerator and denominator, or one less.\<close>

definition floor_log2 :: "rat \<Rightarrow> int" where
  "floor_log2 x =
     (let k = bitlen (fst (quotient_of x)) - bitlen (snd (quotient_of x))
      in if pow2 k \<le> x then k else k - 1)"

definition round_half_even :: "rat \<Rightarrow> int" where
  "round_half_even x =
     (let f = \<lfloor>x\<rfloor>; d = x - of_int f
      in if d < 1 / 2 then f
         else if 1 / 2 < d then f + 1
         else if even f then f else f + 1)"

text \<open>\<open>Number(s)\<close> for a decimal string, and the rounding of every exact result: the
  nearest double, ties to the even significand of 53 bits, with the smallest exponent
  \<open>-1074\<close> of the subnormal numbers and an infinity from \<open>2^1024\<close> on.\<close>

definition to_double :: "rat \<Rightarrow> number" where
  "to_double x =
     (if x = 0 then Finite 0
      else
        let e = max (floor_log2 \<bar>x\<bar> - 52) (- 1074);
            r = of_int (round_half_even (x / pow2 e)) * pow2 e
        in if pow2 1024 \<le> \<bar>r\<bar> then (if 0 < x then PosInfinity else NegInfinity)
           else Finite r)"

text \<open>The operator \<open>+\<close> on numbers.\<close>

fun number_add :: "number \<Rightarrow> number \<Rightarrow> number" where
  "number_add (Finite x) (Finite y) = to_double (x + y)"
| "number_add NaN _ = NaN"
| "number_add _ NaN = NaN"
| "number_add PosInfinity NegInfinity = NaN"
| "number_add NegInfinity PosInfinity = NaN"
| "number_add PosInfinity _ = PosInfinity"
| "number_add _ PosInfinity = PosInfinity"
| "number_add NegInfinity _ = NegInfinity"
| "number_add _ NegInfinity = NegInfinity"

text \<open>The operator \<open>>\<close> on numbers; every comparison with NaN is false.\<close>

fun number_gt :: "number \<Rightarrow> number \<Rightarrow> bool" where
  "number_gt (Finite x) (Finite y) = (y < x)"
| "number_gt NaN _ = False"
| "number_gt _ NaN = False"
| "number_gt PosInfinity PosInfinity = False"
| "number_gt PosInfinity _ = True"
| "number_gt _ PosInfinity = False"
| "number_gt NegInfinity _ = False"
| "number_gt _ NegInfinity = True"

datatype error = UserIdRequired | TypeError | DbError | FetchError | JsonError | NotifyError

text \<open>The type \<open>EasySlipResponse\<close> (lines 25-88). The fields the handler tests for
  absence (\<open>data\<close>, \<open>transRef\<close>, \<open>receiver\<close>, \<open>account\<close>, \<open>name\<close>, \<open>th\<close>, \<open>en\<close>,
  \<open>bank\<close>) are options; the others follow the declared type.\<close>

datatype bank_type = BANKAC | TOKEN | DUMMY

record account_name =
  name_th :: "string option"
  name_en :: "string option"

record bank_ref =
  bk_type :: bank_type
  bk_account :: string

record party_account =
  acc_name :: "account_name option"
  acc_bank :: "bank_ref option"

record party =
  pty_bank_id :: string
  pty_account :: "party_account option"

record slip_data =
  sd_payload :: string
  sd_transRef :: "string option"
  sd_date :: string
  sd_amount :: money
  sd_sender :: party
  sd_receiver :: "party option"

record EasySlipResponse =
  es_status :: int
  es_data :: "slip_data option"
  es_message :: "string option"

text \<open>The tables of \<open>@/lib/db/schema\<close> the handler reads and writes, with the columns it
  names. A table is the list of its rows.\<close>

record user_row =
  u_id :: nat
  u_name :: "string option"
  u_email :: string
  u_depositLimitId :: "nat option"

record deposit_limit =
  dl_id :: nat
  dl_dailyLimit :: money

record payment_row =
  pt_status :: string
  pt_statusName :: string
  pt_total :: money
  pt_amount :: money
  pt_userId :: nat
  pt_method :: string
  pt_transRef :: string
  pt_merchantId :: string
  pt_orderNo :: string
  pt_refNo :: string
  pt_productDetail :: string
  pt_createdAt :: time
  pt_updatedAt :: time
  pt_paymentDate :: time

record balance_row =
  ub_userId :: nat
  ub_balance :: money
  ub_updatedAt :: time

record store =
  users :: "user_row list"
  depositLimits :: "deposit_limit list"
  paymentTransactions :: "payment_row list"
  userBalances :: "balance_row list"

text \<open>The multipart body: \<open>formData.get\<close> returns the first value of a field, a file or
  a string.\<close>

record upload =
  f_size :: nat
  f_type :: string
  f_bytes :: string

datatype form_value = FileValue upload | TextValue string

type_synonym form = "(string \<times> form_value) list"

record request =
  rq_formData :: "error + form"

record provider_response =
  rs_ok :: bool
  rs_json :: "error + EasySlipResponse"

record notification =
  n_userName :: string
  n_amount :: money
  n_transRef :: string

datatype db_op = SelectSlip | SelectUserLimit | SelectDailyTotal | InsertPayment | UpdateBalance | Commit

text \<open>What the handler awaits from outside. \<open>getUser\<close> is the session lookup;
  \<open>fetch\<close> is the provider call on the uploaded image (it throws, or answers with
  \<open>ok\<close> and a JSON body); \<open>sendDepositNotification\<close> is the outcome of the awaited
  call at line 317 (it returns or throws); \<open>dbFaults\<close> lists the database operations
  that fail in this request; \<open>now\<close> is the clock in milliseconds; \<open>setHours0\<close> is
  the runtime's \<open>setHours(0, 0, 0, 0)\<close>, which takes an instant to the midnight of its
  local day by the rules of the server's time zone; \<open>toLocaleString\<close> is the runtime's
  number formatting.\<close>

record env =
  getUser :: "error + user_row option"
  fetch :: "string \<Rightarrow> error + provider_response"
  sendDepositNotification :: "notification \<Rightarrow> error + unit"
  dbFaults :: "db_op list"
  now :: time
  setHours0 :: "time \<Rightarrow> time"
  toLocaleString :: "number \<Rightarrow> string"

record response =
  http_status :: nat
  body_status :: nat
  body_message :: string
  body_details :: "string option"

text \<open>The calls the handler makes besides writing the store, in the order it makes
  them: the \<open>fetch\<close> of the provider with the image, a \<open>console.error\<close>, the query of
  \<open>checkSlipAlreadyUsed\<close> for a reference, the queries of \<open>checkDepositLimits\<close> for a
  user, the call of \<open>recordVerifiedSlip\<close> with its three arguments, and the call of
  \<open>sendDepositNotification\<close> with its payload.\<close>

datatype event =
    ProviderCall string
  | ConsoleError
  | SlipQuery string
  | LimitQuery nat
  | Settlement string money "nat option"
  | Notification notification

record limit_check =
  lc_allowed :: bool
  lc_message :: "string option"

subsection \<open>The receiver check (lines 11-18 and 90-110)\<close>

definition EXPECTED_RECEIVER_name_th :: string where
  "EXPECTED_RECEIVER_name_th =
     [CHR 0xE0, CHR 0xB8, CHR 0x9A, CHR 0xE0, CHR 0xB8, CHR 0x88, CHR 0xE0, CHR 0xB8, CHR 0x81,
      CHR 0x2E, CHR 0x20, CHR 0xE0, CHR 0xB9, CHR 0x80, CHR 0xE0, CHR 0xB8, CHR 0xAD, CHR 0xE0,
      CHR 0xB9, CHR 0x87, CHR 0xE0, CHR 0xB8, CHR 0x81, CHR 0xE0, CHR 0xB8, CHR 0x8B, CHR 0xE0,
      CHR 0xB9, CHR 0x8C, CHR 0xE0, CHR 0xB9, CHR 0x80, CHR 0xE0, CHR 0xB8, CHR 0x9E, CHR 0xE0,
      CHR 0xB8, CHR 0xB4, CHR 0xE0, CHR 0xB8, CHR 0xA3, CHR 0xE0, CHR 0xB9, CHR 0x8C, CHR 0xE0,
      CHR 0xB8, CHR 0x97, CHR 0x20, CHR 0xE0, CHR 0xB9, CHR 0x80]"

definition EXPECTED_RECEIVER_name_en :: string where
  "EXPECTED_RECEIVER_name_en = ''EXPERT 8''"

definition EXPECTED_RECEIVER_account :: string where
  "EXPECTED_RECEIVER_account = ''XXX-X-XX730-5''"

definition EXPECTED_RECEIVER_type :: bank_type where
  "EXPECTED_RECEIVER_type = BANKAC"

text \<open>\<open>receiver.name?.th\<close> is undefined when the name or the field is missing, and
  undefined differs from every expected string.\<close>

definition validateReceiver :: "EasySlipResponse \<Rightarrow> bool" where
  "validateReceiver d =
     (case es_data d of
        None \<Rightarrow> False
      | Some sd \<Rightarrow>
          (case sd_receiver sd of
             None \<Rightarrow> False
           | Some rcv \<Rightarrow>
               (case pty_account rcv of
                  None \<Rightarrow> False
                | Some receiver \<Rightarrow>
                    if Option.bind (acc_name receiver) name_th \<noteq> Some EXPECTED_RECEIVER_name_th \<or>
                       Option.bind (acc_name receiver) name_en \<noteq> Some EXPECTED_RECEIVER_name_en
                    then False
                    else if map_option bk_type (acc_bank receiver) \<noteq> Some EXPECTED_RECEIVER_type \<or>
                            map_option bk_account (acc_bank receiver) \<noteq> Some EXPECTED_RECEIVER_account
                    then False
                    else True)))"

subsection \<open>The duplicate check (lines 112-120)\<close>

definition checkSlipAlreadyUsed :: "env \<Rightarrow> string \<Rightarrow> store \<Rightarrow> error + bool" where
  "checkSlipAlreadyUsed e transRef st =
     (if SelectSlip \<in> set (dbFaults e) then Inl DbError
      else
        let existingSlip = take 1 (filter (\<lambda>p. pt_transRef p = transRef) (paymentTransactions st))
        in Inr (length existingSlip > 0))"

subsection \<open>The deposit limit (lines 122-165)\<close>

text \<open>The first query: the user's row, left-joined with the tier its \<open>depositLimitId\<close>
  names. The outer option is the row, the inner one the joined tier.\<close>

definition selectUserLimit :: "store \<Rightarrow> nat \<Rightarrow> deposit_limit option option" where
  "selectUserLimit st userId =
     (case filter (\<lambda>u. u_id u = userId) (users st) of
        [] \<Rightarrow> None
      | u # _ \<Rightarrow>
          Some (case u_depositLimitId u of
                  None \<Rightarrow> None
                | Some d \<Rightarrow> find (\<lambda>l. dl_id l = d) (depositLimits st)))"

text \<open>The second query: the sum of the amounts of the user's rows created since
  \<open>today\<close>, zero when there is none.\<close>

definition selectDailyTotal :: "store \<Rightarrow> nat \<Rightarrow> time \<Rightarrow> money" where
  "selectDailyTotal st userId today =
     sum_list (map pt_amount
       (filter (\<lambda>p. pt_userId p = userId \<and> today \<le> pt_createdAt p) (paymentTransactions st)))"

definition baht_sign :: string where
  "baht_sign = [CHR 0xE0, CHR 0xB8, CHR 0xBF]"

text \<open>Lines 153-157 are arithmetic on numbers: \<open>Number\<close> of the two decimal strings, the
  sum with \<open>amount\<close>, which is the double of the provider's decimal, and the
  comparison.\<close>

definition checkDepositLimits :: "env \<Rightarrow> nat \<Rightarrow> money \<Rightarrow> store \<Rightarrow> error + limit_check" where
  "checkDepositLimits e userId amount st =
     (if SelectUserLimit \<in> set (dbFaults e) then Inl DbError
      else
        case selectUserLimit st userId of
          None \<Rightarrow> Inl TypeError
        | Some None \<Rightarrow>
            Inr \<lparr>lc_allowed = False, lc_message = Some ''No deposit limit set for user''\<rparr>
        | Some (Some depositLimit) \<Rightarrow>
            if SelectDailyTotal \<in> set (dbFaults e) then Inl DbError
            else
              let today = setHours0 e (now e);
                  dailyTotalAmount = to_double (selectDailyTotal st userId today);
                  newDailyTotal = number_add dailyTotalAmount (to_double amount);
                  dailyLimit = to_double (dl_dailyLimit depositLimit)
              in if number_gt newDailyTotal dailyLimit
                 then Inr \<lparr>lc_allowed = False,
                           lc_message = Some (''Deposit would exceed daily limit of '' @ baht_sign @
                                              toLocaleString e dailyLimit)\<rparr>
                 else Inr \<lparr>lc_allowed = True, lc_message = None\<rparr>)"

subsection \<open>The settlement (lines 167-200)\<close>

definition status_name_paid :: string where
  "status_name_paid =
     [CHR 0xE0, CHR 0xB8, CHR 0x8A, CHR 0xE0, CHR 0xB8, CHR 0xB3, CHR 0xE0, CHR 0xB8, CHR 0xA3,
      CHR 0xE0, CHR 0xB8, CHR 0xB0, CHR 0xE0, CHR 0xB9, CHR 0x80, CHR 0xE0, CHR 0xB8, CHR 0x87,
      CHR 0xE0, CHR 0xB8, CHR 0xB4, CHR 0xE0, CHR 0xB8, CHR 0x99, CHR 0xE0, CHR 0xB8, CHR 0xAA,
      CHR 0xE0, CHR 0xB8, CHR 0xB3, CHR 0xE0, CHR 0xB9, CHR 0x80, CHR 0xE0, CHR 0xB8, CHR 0xA3,
      CHR 0xE0, CHR 0xB9, CHR 0x87, CHR 0xE0, CHR 0xB8, CHR 0x88]"

definition product_detail_transfer :: string where
  "product_detail_transfer =
     [CHR 0xE0, CHR 0xB9, CHR 0x80, CHR 0xE0, CHR 0xB8, CHR 0x95, CHR 0xE0, CHR 0xB8, CHR 0xB4,
      CHR 0xE0, CHR 0xB8, CHR 0xA1, CHR 0xE0, CHR 0xB9, CHR 0x80, CHR 0xE0, CHR 0xB8, CHR 0x87,
      CHR 0xE0, CHR 0xB8, CHR 0xB4, CHR 0xE0, CHR 0xB8, CHR 0x99, CHR 0xE0, CHR 0xB8, CHR 0x9C,
      CHR 0xE0, CHR 0xB9, CHR 0x88, CHR 0xE0, CHR 0xB8, CHR 0xB2, CHR 0xE0, CHR 0xB8, CHR 0x99,
      CHR 0xE0, CHR 0xB8, CHR 0x81, CHR 0xE0, CHR 0xB8, CHR 0xB2, CHR 0xE0, CHR 0xB8, CHR 0xA3,
      CHR 0xE0, CHR 0xB9, CHR 0x82, CHR 0xE0, CHR 0xB8, CHR 0xAD, CHR 0xE0, CHR 0xB8, CHR 0x99,
      CHR 0xE0, CHR 0xB9, CHR 0x80, CHR 0xE0, CHR 0xB8, CHR 0x87, CHR 0xE0, CHR 0xB8, CHR 0xB4,
      CHR 0xE0, CHR 0xB8, CHR 0x99]"

text \<open>The row of lines 174-189.\<close>

definition slip_row :: "env \<Rightarrow> string \<Rightarrow> money \<Rightarrow> nat \<Rightarrow> payment_row" where
  "slip_row e transRef amount userId =
     \<lparr>pt_status = ''CP'',
      pt_statusName = status_name_paid,
      pt_total = amount,
      pt_amount = amount,
      pt_userId = userId,
      pt_method = ''BANK'',
      pt_transRef = transRef,
      pt_merchantId = [],
      pt_orderNo = transRef,
      pt_refNo = transRef,
      pt_productDetail = product_detail_transfer,
      pt_createdAt = now e,
      pt_updatedAt = now e,
      pt_paymentDate = now e\<rparr>"

definition insertPayment :: "env \<Rightarrow> payment_row \<Rightarrow> store \<Rightarrow> error + store" where
  "insertPayment e row tx =
     (if InsertPayment \<in> set (dbFaults e) then Inl DbError
      else Inr (tx\<lparr>paymentTransactions := paymentTransactions tx @ [row]\<rparr>))"

text \<open>The update of lines 192-198 changes every row whose \<open>userId\<close> matches, and none
  when there is no such row.\<close>

definition credit :: "env \<Rightarrow> nat \<Rightarrow> money \<Rightarrow> balance_row \<Rightarrow> balance_row" where
  "credit e userId amount b =
     (if ub_userId b = userId
      then b\<lparr>ub_balance := ub_balance b + amount, ub_updatedAt := now e\<rparr>
      else b)"

definition updateBalance :: "env \<Rightarrow> nat \<Rightarrow> money \<Rightarrow> store \<Rightarrow> error + store" where
  "updateBalance e userId amount tx =
     (if UpdateBalance \<in> set (dbFaults e) then Inl DbError
      else Inr (tx\<lparr>userBalances := map (credit e userId amount) (userBalances tx)\<rparr>))"

text \<open>\<open>db.transaction\<close>: the callback works on the transaction's view of the store; when
  it throws, or the commit fails, the store stays as it was and the error is rethrown.\<close>

definition transaction :: "env \<Rightarrow> (store \<Rightarrow> error + store) \<Rightarrow> store \<Rightarrow> (error + unit) \<times> store" where
  "transaction e body st =
     (case body st of
        Inl err \<Rightarrow> (Inl err, st)
      | Inr tx \<Rightarrow> if Commit \<in> set (dbFaults e) then (Inl DbError, st) else (Inr (), tx))"

text \<open>\<open>!userId\<close> holds of null and of 0.\<close>

definition recordVerifiedSlip ::
  "env \<Rightarrow> string \<Rightarrow> money \<Rightarrow> nat option \<Rightarrow> store \<Rightarrow> (error + unit) \<times> store" where
  "recordVerifiedSlip e transRef amount userId st =
     (case userId of
        None \<Rightarrow> (Inl UserIdRequired, st)
      | Some uid \<Rightarrow>
          if uid = 0 then (Inl UserIdRequired, st)
          else
            transaction e
              (\<lambda>tx. case insertPayment e (slip_row e transRef amount uid) tx of
                      Inl err \<Rightarrow> Inl err
                    | Inr tx1 \<Rightarrow> updateBalance e uid amount tx1)
              st)"

subsection \<open>The handler (lines 202-333)\<close>

definition json :: "nat \<Rightarrow> string \<Rightarrow> string option \<Rightarrow> response" where
  "json s m d = \<lparr>http_status = s, body_status = s, body_message = m, body_details = d\<rparr>"

definition success :: response where
  "success = json 200 ''success'' None"

definition server_error :: response where
  "server_error = json 500 ''server_error'' None"

definition emit :: "event \<Rightarrow> 'a \<times> store \<times> event list \<Rightarrow> 'a \<times> store \<times> event list" where
  "emit ev x = (fst x, fst (snd x), ev # snd (snd x))"

text \<open>Line 318: \<open>user.name || user.email\<close> takes the e-mail when the name is null or
  empty.\<close>

definition name_or_email :: "user_row \<Rightarrow> string" where
  "name_or_email u =
     (case u_name u of
        None \<Rightarrow> u_email u
      | Some nm \<Rightarrow> if nm = [] then u_email u else nm)"

text \<open>Lines 315-325: the notification, for a logged-in user, and the success response.\<close>

definition POST_notify ::
  "env \<Rightarrow> user_row option \<Rightarrow> slip_data \<Rightarrow> string \<Rightarrow> store \<Rightarrow> (error + response) \<times> store \<times> event list" where
  "POST_notify e user sd transRef st =
     (case user of
        None \<Rightarrow> (Inr success, st, [])
      | Some u \<Rightarrow>
          let n = \<lparr>n_userName = name_or_email u,
                   n_amount = sd_amount sd,
                   n_transRef = transRef\<rparr>
          in emit (Notification n)
               (case sendDepositNotification e n of
                  Inl err \<Rightarrow> (Inl err, st, [])
                | Inr _ \<Rightarrow> (Inr success, st, [])))"

text \<open>Lines 308-313, then the notification. \<open>user?.id || null\<close> is null for no user and
  for the id 0.\<close>

definition POST_record ::
  "env \<Rightarrow> user_row option \<Rightarrow> slip_data \<Rightarrow> string \<Rightarrow> store \<Rightarrow> (error + response) \<times> store \<times> event list" where
  "POST_record e user sd transRef st =
     (let userId = (case user of
                      None \<Rightarrow> None
                    | Some u \<Rightarrow> if u_id u = 0 then None else Some (u_id u))
      in emit (Settlement transRef (sd_amount sd) userId)
           (case recordVerifiedSlip e transRef (sd_amount sd) userId st of
              (Inl err, st') \<Rightarrow> (Inl err, st', [])
            | (Inr _, st') \<Rightarrow> POST_notify e user sd transRef st'))"

text \<open>Lines 293-306, then the settlement.\<close>

definition POST_limit ::
  "env \<Rightarrow> user_row option \<Rightarrow> slip_data \<Rightarrow> string \<Rightarrow> store \<Rightarrow> (error + response) \<times> store \<times> event list" where
  "POST_limit e user sd transRef st =
     (case user of
        None \<Rightarrow> POST_record e user sd transRef st
      | Some u \<Rightarrow>
          emit (LimitQuery (u_id u))
            (case checkDepositLimits e (u_id u) (sd_amount sd) st of
               Inl err \<Rightarrow> (Inl err, st, [])
             | Inr depositCheck \<Rightarrow>
                 if \<not> lc_allowed depositCheck
                 then (Inr (json 400 ''deposit_limit_exceeded'' (lc_message depositCheck)), st, [])
                 else POST_record e user sd transRef st))"

text \<open>Lines 279-325: the block guarded by \<open>data.data?.transRef\<close>, which is false for a
  missing and for an empty reference, and the success response after it.\<close>

definition POST_slip ::
  "env \<Rightarrow> user_row option \<Rightarrow> slip_data \<Rightarrow> store \<Rightarrow> (error + response) \<times> store \<times> event list" where
  "POST_slip e user sd st =
     (case sd_transRef sd of
        None \<Rightarrow> (Inr success, st, [])
      | Some transRef \<Rightarrow>
          if transRef = [] then (Inr success, st, [])
          else
            emit (SlipQuery transRef)
              (case checkSlipAlreadyUsed e transRef st of
                 Inl err \<Rightarrow> (Inl err, st, [])
               | Inr isUsed \<Rightarrow>
                   if isUsed
                   then (Inr (json 400 ''slip_already_used''
                                (Some ''This transfer slip has already been used'')), st, [])
                   else POST_limit e user sd transRef st))"

text \<open>Lines 236-277: the provider call, its answer and the receiver check.\<close>

definition POST_verify ::
  "env \<Rightarrow> user_row option \<Rightarrow> upload \<Rightarrow> store \<Rightarrow> (error + response) \<times> store \<times> event list" where
  "POST_verify e user file st =
     emit (ProviderCall (f_bytes file))
       (case fetch e (f_bytes file) of
          Inl err \<Rightarrow> (Inl err, st, [])
        | Inr resp \<Rightarrow>
            if \<not> rs_ok resp then (Inr (json 400 ''invalid_slip'' None), st, [ConsoleError])
            else
              (case rs_json resp of
                 Inl err \<Rightarrow> (Inl err, st, [])
               | Inr data \<Rightarrow>
                   (case es_data data of
                      None \<Rightarrow> (Inr (json 400 ''invalid_slip'' (es_message data)), st, [])
                    | Some sd \<Rightarrow>
                        if \<not> validateReceiver data
                        then (Inr (json 400 ''invalid_receiver''
                                     (Some ''Transfer must be to the correct account only'')), st, [])
                        else POST_slip e user sd st)))"

text \<open>Lines 203-234, the body of the \<open>try\<close>. A \<open>slip\<close> field that is a string and not a
  file is falsy when empty; otherwise it has no \<open>size\<close> (the comparison with undefined is
  false) and no \<open>type\<close>, whose \<open>startsWith\<close> throws a TypeError.\<close>

definition POST_try :: "env \<Rightarrow> request \<Rightarrow> store \<Rightarrow> (error + response) \<times> store \<times> event list" where
  "POST_try e rq st =
     (case getUser e of
        Inl err \<Rightarrow> (Inl err, st, [])
      | Inr user \<Rightarrow>
          (case rq_formData rq of
             Inl err \<Rightarrow> (Inl err, st, [])
           | Inr formData \<Rightarrow>
               (case map_of formData ''slip'' of
                  None \<Rightarrow> (Inr (json 400 ''invalid_payload'' None), st, [])
                | Some (TextValue s) \<Rightarrow>
                    if s = [] then (Inr (json 400 ''invalid_payload'' None), st, [])
                    else (Inl TypeError, st, [])
                | Some (FileValue file) \<Rightarrow>
                    if f_size file > 10 * 1024 * 1024
                    then (Inr (json 400 ''image_size_too_large'' None), st, [])
                    else if \<not> prefix ''image/'' (f_type file)
                    then (Inr (json 400 ''invalid_image'' None), st, [])
                    else POST_verify e user file st)))"

text \<open>The \<open>catch\<close> of lines 326-332 logs the error and answers \<open>server_error\<close>.\<close>

definition POST :: "env \<Rightarrow> request \<Rightarrow> store \<Rightarrow> response \<times> store \<times> event list" where
  "POST e rq st =
     (case POST_try e rq st of
        (Inl err, st', tr) \<Rightarrow> (server_error, st', tr @ [ConsoleError])
      | (Inr r, st', tr) \<Rightarrow> (r, st', tr))"

subsection \<open>Path conditions and observations\<close>

text \<open>\<open>verified e rq user file data sd\<close>: the request passes lines 204-265. The session
  lookup returns \<open>user\<close>, the form has the file \<open>file\<close> in its \<open>slip\<close> field, the file is
  at most 10 MB and of an image type, and the provider answers 2xx with the JSON \<open>data\<close>,
  whose payload is \<open>sd\<close>.\<close>

definition verified :: "env \<Rightarrow> request \<Rightarrow> user_row option \<Rightarrow> upload \<Rightarrow> EasySlipResponse \<Rightarrow> slip_data \<Rightarrow> bool" where
  "verified e rq user file data sd =
     (getUser e = Inr user \<and>
      (case rq_formData rq of Inl _ \<Rightarrow> False | Inr formData \<Rightarrow> map_of formData ''slip'' = Some (FileValue file)) \<and>
      \<not> f_size file > 10 * 1024 * 1024 \<and>
      prefix ''image/'' (f_type file) \<and>
      (case fetch e (f_bytes file) of Inl _ \<Rightarrow> False | Inr resp \<Rightarrow> rs_ok resp \<and> rs_json resp = Inr data) \<and>
      es_data data = Some sd)"

text \<open>The store after the transaction of lines 172-199 has committed.\<close>

definition settled :: "env \<Rightarrow> string \<Rightarrow> money \<Rightarrow> nat \<Rightarrow> store \<Rightarrow> store" where
  "settled e transRef amount userId st =
     st\<lparr>paymentTransactions := paymentTransactions st @ [slip_row e transRef amount userId],
        userBalances := map (credit e userId amount) (userBalances st)\<rparr>"

text \<open>One of the three steps of the transaction fails in this request.\<close>

definition tx_fault :: "env \<Rightarrow> bool" where
  "tx_fault e = (InsertPayment \<in> set (dbFaults e) \<or> UpdateBalance \<in> set (dbFaults e) \<or> Commit \<in> set (dbFaults e))"

text \<open>The responses that reject a request: the codes of lines 208-306.\<close>

definition rejection :: "response \<Rightarrow> bool" where
  "rejection resp =
     (http_status resp = 400 \<and>
      body_message resp \<in> set [''invalid_payload'', ''image_size_too_large'', ''invalid_image'',
        ''invalid_slip'', ''invalid_receiver'', ''slip_already_used'', ''deposit_limit_exceeded''])"

subsection \<open>Example inputs\<close>

text \<open>A slip paid to the expected account, uploaded as a small PNG by the user 7, whose
  tier 3 allows 50000 a day; the clock is 05:13 local time (UTC+7) and the user's earlier
  payment of the day was made at 02:26.\<close>

definition ex_receiver :: party where
  "ex_receiver =
     \<lparr>pty_bank_id = ''004'',
      pty_account = Some \<lparr>acc_name = Some \<lparr>name_th = Some EXPECTED_RECEIVER_name_th,
                                              name_en = Some ''EXPERT 8''\<rparr>,
                          acc_bank = Some \<lparr>bk_type = BANKAC, bk_account = ''XXX-X-XX730-5''\<rparr>\<rparr>\<rparr>"

definition ex_sender :: party where
  "ex_sender =
     \<lparr>pty_bank_id = ''014'',
      pty_account = Some \<lparr>acc_name = Some \<lparr>name_th = None, name_en = Some ''MR. SOMCHAI''\<rparr>,
                          acc_bank = Some \<lparr>bk_type = BANKAC, bk_account = ''XXX-X-XX123-4''\<rparr>\<rparr>\<rparr>"

definition ex_slip :: "string option \<Rightarrow> money \<Rightarrow> slip_data" where
  "ex_slip r a =
     \<lparr>sd_payload = ''0041000600000101'', sd_transRef = r, sd_date = ''2023-11-15T05:10:00+07:00'',
      sd_amount = a, sd_sender = ex_sender, sd_receiver = Some ex_receiver\<rparr>"

definition ex_answer :: "slip_data \<Rightarrow> EasySlipResponse" where
  "ex_answer sd = \<lparr>es_status = 200, es_data = Some sd, es_message = None\<rparr>"

definition ex_file :: upload where
  "ex_file = \<lparr>f_size = 2048, f_type = ''image/png'', f_bytes = ''PNG''\<rparr>"

definition ex_request :: "string \<Rightarrow> request" where
  "ex_request claimed =
     \<lparr>rq_formData = Inr [(''slip'', FileValue ex_file), (''amount'', TextValue claimed)]\<rparr>"

definition ex_user :: "nat option \<Rightarrow> user_row" where
  "ex_user tier =
     \<lparr>u_id = 7, u_name = Some ''Somchai'', u_email = ''somchai@example.com'',
      u_depositLimitId = tier\<rparr>"

definition ex_env :: "user_row option \<Rightarrow> slip_data \<Rightarrow> error + unit \<Rightarrow> db_op list \<Rightarrow> env" where
  "ex_env user sd notify faults =
     \<lparr>getUser = Inr user,
      fetch = (\<lambda>_. Inr \<lparr>rs_ok = True, rs_json = Inr (ex_answer sd)\<rparr>),
      sendDepositNotification = (\<lambda>_. notify),
      dbFaults = faults,
      now = 1700000000000,
      setHours0 = (\<lambda>t. t - ((t + 25200000) mod 86400000)),
      toLocaleString = (\<lambda>_. ''50,000'')\<rparr>"

definition ex_payment :: "money \<Rightarrow> payment_row" where
  "ex_payment a =
     \<lparr>pt_status = ''CP'', pt_statusName = ''paid'', pt_total = a, pt_amount = a, pt_userId = 7,
      pt_method = ''CARD'', pt_transRef = ''OLD-REF'', pt_merchantId = ''M1'', pt_orderNo = ''O1'',
      pt_refNo = ''R1'', pt_productDetail = ''card'', pt_createdAt = 1699990000000,
      pt_updatedAt = 1699990000000, pt_paymentDate = 1699990000000\<rparr>"

definition ex_store :: "nat option \<Rightarrow> money \<Rightarrow> store" where
  "ex_store tier spent =
     \<lparr>users = [ex_user tier],
      depositLimits = [\<lparr>dl_id = 3, dl_dailyLimit = 50000\<rparr>],
      paymentTransactions = [ex_payment spent],
      userBalances = [\<lparr>ub_userId = 7, ub_balance = 100, ub_updatedAt = 1699990000000\<rparr>]\<rparr>"

text \<open>A store with a second user and tier, and with payments of the other user and of
  the day before, which the daily total of the user 7 must leave out.\<close>

definition ex_day_store :: "money \<Rightarrow> money \<Rightarrow> store" where
  "ex_day_store limit spent =
     \<lparr>users = [\<lparr>u_id = 8, u_name = None, u_email = ''malee@example.com'',
                 u_depositLimitId = Some 2\<rparr>,
               ex_user (Some 3)],
      depositLimits = [\<lparr>dl_id = 2, dl_dailyLimit = 1000\<rparr>, \<lparr>dl_id = 3, dl_dailyLimit = limit\<rparr>],
      paymentTransactions =
        [(ex_payment 30000)\<lparr>pt_createdAt := 1699970000000\<rparr>,
         (ex_payment 5000)\<lparr>pt_userId := 8\<rparr>,
         ex_payment spent],
      userBalances = [\<lparr>ub_userId = 8, ub_balance = 5, ub_updatedAt = 1699990000000\<rparr>,
                      \<lparr>ub_userId = 7, ub_balance = 100, ub_updatedAt = 1699990000000\<rparr>]\<rparr>"

section \<open>Properties\<close>

subsection \<open>The shape of the handler's results\<close>

lemma emit_simp [simp]: "emit ev (r, s, t) = (r, s, ev # t)"
  by (simp add: emit_def)

lemma fst_emit [simp]: "fst (emit ev x) = fst x"
  by (simp add: emit_def)

lemma store_emit [simp]: "fst (snd (emit ev x)) = fst (snd x)"
  by (simp add: emit_def)

lemma trace_emit [simp]: "snd (snd (emit ev x)) = ev # snd (snd x)"
  by (simp add: emit_def)

lemma POST_try_verified:
  assumes "verified e rq user file data sd"
  shows "POST_try e rq st =
           emit (ProviderCall (f_bytes file))
             (if \<not> validateReceiver data
              then (Inr (json 400 ''invalid_receiver''
                           (Some ''Transfer must be to the correct account only'')), st, [])
              else POST_slip e user sd st)"
  using assms
  by (auto simp: verified_def POST_try_def POST_verify_def split: sum.splits)

lemma recordVerifiedSlip_cases:
  "recordVerifiedSlip e r a uid st =
     (case uid of
        None \<Rightarrow> (Inl UserIdRequired, st)
      | Some n \<Rightarrow>
          if n = 0 then (Inl UserIdRequired, st)
          else if tx_fault e then (Inl DbError, st)
          else (Inr (), settled e r a n st))"
  by (auto simp: recordVerifiedSlip_def transaction_def insertPayment_def updateBalance_def
        tx_fault_def settled_def split: option.splits)

lemma POST_notify_store: "fst (snd (POST_notify e user sd r st)) = st"
  by (simp add: POST_notify_def Let_def split: option.splits sum.splits)

lemma POST_notify_resp: "fst (POST_notify e user sd r st) = Inr resp \<Longrightarrow> resp = success"
  by (auto simp: POST_notify_def Let_def split: option.splits sum.splits)

lemma POST_record_resp: "fst (POST_record e user sd r st) = Inr resp \<Longrightarrow> resp = success"
  by (auto simp: POST_record_def Let_def recordVerifiedSlip_cases
        dest: POST_notify_resp split: option.splits if_splits)

lemma POST_limit_resp:
  "fst (POST_limit e user sd r st) = Inr resp \<Longrightarrow>
     resp = success \<or> (fst (snd (POST_limit e user sd r st)) = st \<and> rejection resp)"
  by (auto simp: POST_limit_def rejection_def json_def dest: POST_record_resp
        split: option.splits sum.splits if_splits)

lemma POST_slip_resp:
  "fst (POST_slip e user sd st) = Inr resp \<Longrightarrow>
     resp = success \<or> (fst (snd (POST_slip e user sd st)) = st \<and> rejection resp)"
  by (auto simp: POST_slip_def dest: POST_limit_resp split: option.splits sum.splits if_splits)
    (auto simp: rejection_def json_def)

lemma POST_verify_resp:
  "fst (POST_verify e user file st) = Inr resp \<Longrightarrow>
     resp = success \<or> (fst (snd (POST_verify e user file st)) = st \<and> rejection resp)"
  by (auto simp: POST_verify_def dest: POST_slip_resp split: option.splits sum.splits if_splits)
    (auto simp: rejection_def json_def)

lemma POST_try_resp:
  "fst (POST_try e rq st) = Inr resp \<Longrightarrow>
     resp = success \<or> (fst (snd (POST_try e rq st)) = st \<and> rejection resp)"
  by (auto simp: POST_try_def dest: POST_verify_resp
        split: option.splits sum.splits if_splits form_value.splits)
    (auto simp: rejection_def json_def)

lemma POST_rejection_frame:
  "POST e rq st = (resp, st', tr) \<Longrightarrow> rejection resp \<Longrightarrow> st' = st"
  using POST_try_resp [of e rq st resp]
  by (auto simp: POST_def rejection_def success_def server_error_def json_def split: prod.splits sum.splits)

lemma POST_slip_fresh:
  assumes "sd_transRef sd = Some r" and "r \<noteq> []" and "checkSlipAlreadyUsed e r st = Inr False"
  shows "POST_slip e user sd st = emit (SlipQuery r) (POST_limit e user sd r st)"
  using assms by (simp add: POST_slip_def)

lemma POST_limit_allowed:
  assumes "checkDepositLimits e (u_id u) (sd_amount sd) st = Inr chk" and "lc_allowed chk"
  shows "POST_limit e (Some u) sd r st = emit (LimitQuery (u_id u)) (POST_record e (Some u) sd r st)"
  using assms by (simp add: POST_limit_def)

lemma POST_record_user:
  assumes "u_id u \<noteq> 0"
  shows "POST_record e (Some u) sd r st =
           emit (Settlement r (sd_amount sd) (Some (u_id u)))
             (if tx_fault e then (Inl DbError, st, [])
              else POST_notify e (Some u) sd r (settled e r (sd_amount sd) (u_id u) st))"
  using assms by (simp add: POST_record_def recordVerifiedSlip_cases)

lemma POST_notify_user:
  "POST_notify e (Some u) sd r st =
     (let n = \<lparr>n_userName = name_or_email u, n_amount = sd_amount sd, n_transRef = r\<rparr>
      in (case sendDepositNotification e n of Inl err \<Rightarrow> Inl err | Inr _ \<Rightarrow> Inr success,
          st, [Notification n]))"
  by (simp add: POST_notify_def Let_def split: sum.splits)

lemma POST_settles:
  assumes "verified e rq (Some u) file data sd"
    and "validateReceiver data"
    and "sd_transRef sd = Some r" and "r \<noteq> []"
    and "u_id u \<noteq> 0"
    and "checkSlipAlreadyUsed e r st = Inr False"
    and "checkDepositLimits e (u_id u) (sd_amount sd) st = Inr chk" and "lc_allowed chk"
  shows "POST e rq st =
           (if tx_fault e
            then (server_error, st,
                  [ProviderCall (f_bytes file), SlipQuery r, LimitQuery (u_id u),
                   Settlement r (sd_amount sd) (Some (u_id u)), ConsoleError])
            else
              (case sendDepositNotification e
                      \<lparr>n_userName = name_or_email u, n_amount = sd_amount sd, n_transRef = r\<rparr> of
                 Inl err \<Rightarrow> server_error
               | Inr _ \<Rightarrow> success,
               settled e r (sd_amount sd) (u_id u) st,
               [ProviderCall (f_bytes file), SlipQuery r, LimitQuery (u_id u),
                Settlement r (sd_amount sd) (Some (u_id u)),
                Notification \<lparr>n_userName = name_or_email u, n_amount = sd_amount sd, n_transRef = r\<rparr>] @
               (case sendDepositNotification e
                      \<lparr>n_userName = name_or_email u, n_amount = sd_amount sd, n_transRef = r\<rparr> of
                  Inl err \<Rightarrow> [ConsoleError]
                | Inr _ \<Rightarrow> [])))"
  using assms
  by (simp add: POST_def POST_try_verified [OF assms(1)] POST_slip_fresh POST_limit_allowed
        POST_record_user POST_notify_user Let_def split: sum.splits)

lemma POST_fst:
  "fst (POST e rq st) = (case fst (POST_try e rq st) of Inl err \<Rightarrow> server_error | Inr r \<Rightarrow> r)"
  by (simp add: POST_def split: prod.splits sum.splits)

lemma POST_store: "fst (snd (POST e rq st)) = fst (snd (POST_try e rq st))"
  by (simp add: POST_def split: prod.splits sum.splits)

lemma POST_trace:
  "snd (snd (POST e rq st)) =
     snd (snd (POST_try e rq st)) @
     (case fst (POST_try e rq st) of Inl err \<Rightarrow> [ConsoleError] | Inr r \<Rightarrow> [])"
  by (simp add: POST_def split: prod.splits sum.splits)

lemma POST_slip_message:
  "fst (POST_slip e user sd st) = Inr resp \<Longrightarrow>
     body_message resp \<in> set [''success'', ''slip_already_used'', ''deposit_limit_exceeded'']"
  by (auto simp: POST_slip_def POST_limit_def json_def success_def
        dest!: POST_record_resp split: option.splits sum.splits if_splits)

lemma validateReceiver_iff:
  "validateReceiver d \<longleftrightarrow>
     (\<exists>sd rcv acc nm bk.
        es_data d = Some sd \<and> sd_receiver sd = Some rcv \<and> pty_account rcv = Some acc \<and>
        acc_name acc = Some nm \<and> acc_bank acc = Some bk \<and>
        name_th nm = Some EXPECTED_RECEIVER_name_th \<and>
        name_en nm = Some EXPECTED_RECEIVER_name_en \<and>
        bk_type bk = EXPECTED_RECEIVER_type \<and>
        bk_account bk = EXPECTED_RECEIVER_account)"
  by (auto simp: validateReceiver_def bind_eq_Some_conv split: option.splits)

subsection \<open>The store changes only by a settlement\<close>

lemma POST_record_store:
  "fst (snd (POST_record e (Some u) sd r st)) =
     (if u_id u = 0 \<or> tx_fault e then st else settled e r (sd_amount sd) (u_id u) st)"
  by (simp add: POST_record_def recordVerifiedSlip_cases POST_notify_store)

lemma POST_record_anonymous_store: "fst (snd (POST_record e None sd r st)) = st"
  by (simp add: POST_record_def recordVerifiedSlip_cases)

lemma POST_limit_store:
  "fst (snd (POST_limit e user sd r st)) = st \<or>
   (\<exists>u chk. user = Some u \<and> u_id u \<noteq> 0 \<and> \<not> tx_fault e \<and>
      checkDepositLimits e (u_id u) (sd_amount sd) st = Inr chk \<and> lc_allowed chk \<and>
      fst (snd (POST_limit e user sd r st)) = settled e r (sd_amount sd) (u_id u) st)"
  by (auto simp: POST_limit_def POST_record_store POST_record_anonymous_store
        split: option.splits sum.splits)

lemma POST_slip_store:
  "fst (snd (POST_slip e user sd st)) = st \<or>
   (\<exists>u r chk. user = Some u \<and> u_id u \<noteq> 0 \<and> \<not> tx_fault e \<and>
      sd_transRef sd = Some r \<and> r \<noteq> [] \<and> checkSlipAlreadyUsed e r st = Inr False \<and>
      checkDepositLimits e (u_id u) (sd_amount sd) st = Inr chk \<and> lc_allowed chk \<and>
      fst (snd (POST_slip e user sd st)) = settled e r (sd_amount sd) (u_id u) st)"
proof (cases "sd_transRef sd")
  case None
  then show ?thesis by (simp add: POST_slip_def)
next
  case (Some r)
  show ?thesis
    using POST_limit_store [of e user sd r st] Some
    by (auto simp: POST_slip_def split: sum.splits)
qed

lemma POST_verify_store:
  "fst (snd (POST_verify e user file st)) = st \<or>
   (\<exists>resp data sd. fetch e (f_bytes file) = Inr resp \<and> rs_ok resp \<and> rs_json resp = Inr data \<and>
      es_data data = Some sd \<and> validateReceiver data \<and>
      fst (snd (POST_verify e user file st)) = fst (snd (POST_slip e user sd st)))"
  by (auto simp: POST_verify_def split: sum.splits option.splits)

lemma POST_try_store:
  "fst (snd (POST_try e rq st)) = st \<or>
   (\<exists>user file data sd. verified e rq user file data sd \<and> validateReceiver data \<and>
      fst (snd (POST_try e rq st)) = fst (snd (POST_slip e user sd st)))"
proof (cases "fst (snd (POST_try e rq st)) = st")
  case True
  then show ?thesis by simp
next
  case False
  then obtain user formData upl where
    a: "getUser e = Inr user" "rq_formData rq = Inr formData"
       "map_of formData ''slip'' = Some (FileValue upl)"
       "\<not> f_size upl > 10 * 1024 * 1024" "prefix ''image/'' (f_type upl)"
       "POST_try e rq st = POST_verify e user upl st"
    by (auto simp: POST_try_def split: sum.splits option.splits form_value.splits if_splits)
  with False POST_verify_store [of e user upl st] show ?thesis
    by (auto simp: verified_def)
qed

lemma POST_store_cases:
  "fst (snd (POST e rq st)) = st \<or>
   (\<exists>u file data sd r chk. verified e rq (Some u) file data sd \<and> validateReceiver data \<and>
      u_id u \<noteq> 0 \<and> \<not> tx_fault e \<and>
      sd_transRef sd = Some r \<and> r \<noteq> [] \<and> checkSlipAlreadyUsed e r st = Inr False \<and>
      checkDepositLimits e (u_id u) (sd_amount sd) st = Inr chk \<and> lc_allowed chk \<and>
      fst (snd (POST e rq st)) = settled e r (sd_amount sd) (u_id u) st)"
proof (cases "fst (snd (POST_try e rq st)) = st")
  case True
  then show ?thesis by (simp add: POST_store)
next
  case False
  with POST_try_store [of e rq st] obtain user upl data sd where
    v: "verified e rq user upl data sd" "validateReceiver data"
       "fst (snd (POST_try e rq st)) = fst (snd (POST_slip e user sd st))"
    by auto
  from False v(3) POST_slip_store [of e user sd st] obtain u r chk where
    s: "user = Some u" "u_id u \<noteq> 0" "\<not> tx_fault e" "sd_transRef sd = Some r" "r \<noteq> []"
       "checkSlipAlreadyUsed e r st = Inr False"
       "checkDepositLimits e (u_id u) (sd_amount sd) st = Inr chk" "lc_allowed chk"
       "fst (snd (POST_slip e user sd st)) = settled e r (sd_amount sd) (u_id u) st"
    by auto
  have "verified e rq (Some u) upl data sd \<and> validateReceiver data \<and>
      u_id u \<noteq> 0 \<and> \<not> tx_fault e \<and>
      sd_transRef sd = Some r \<and> r \<noteq> [] \<and> checkSlipAlreadyUsed e r st = Inr False \<and>
      checkDepositLimits e (u_id u) (sd_amount sd) st = Inr chk \<and> lc_allowed chk \<and>
      fst (snd (POST e rq st)) = settled e r (sd_amount sd) (u_id u) st"
    using v s by (simp add: POST_store)
  then show ?thesis by blast
qed

lemma verified_unique:
  assumes "verified e rq user file data sd" and "verified e rq user' file' data' sd'"
  shows "user' = user \<and> file' = file \<and> data' = data \<and> sd' = sd"
  using assms by (auto simp: verified_def split: sum.splits)

lemma used_iff:
  "SelectSlip \<notin> set (dbFaults e) \<Longrightarrow>
     checkSlipAlreadyUsed e r st = Inr (\<exists>p \<in> set (paymentTransactions st). pt_transRef p = r)"
  by (auto simp: checkSlipAlreadyUsed_def filter_empty_conv)



subsection \<open>The checks\<close>

lemma payments_differ: "paymentTransactions a \<noteq> paymentTransactions b \<Longrightarrow> a \<noteq> b"
  by auto

lemma POST_duplicate:
  assumes "verified e rq user file data sd" and "validateReceiver data"
    and "sd_transRef sd = Some r" and "SelectSlip \<notin> set (dbFaults e)"
    and "p \<in> set (paymentTransactions st)" and "pt_transRef p = r" and "r \<noteq> []"
  shows "POST e rq st =
           (json 400 ''slip_already_used'' (Some ''This transfer slip has already been used''),
            st, [ProviderCall (f_bytes file), SlipQuery r])"
proof -
  have "checkSlipAlreadyUsed e r st = Inr True"
    using assms(4-6) by (auto simp: used_iff)
  then show ?thesis
    using assms(2,3,7) by (simp add: POST_def POST_try_verified [OF assms(1)] POST_slip_def)
qed

lemma checkDepositLimits_configured:
  assumes "selectUserLimit st uid = Some (Some tier)"
    and "SelectUserLimit \<notin> set (dbFaults e)" and "SelectDailyTotal \<notin> set (dbFaults e)"
  shows "checkDepositLimits e uid a st =
           Inr (if number_gt
                     (number_add (to_double (selectDailyTotal st uid (setHours0 e (now e))))
                        (to_double a))
                     (to_double (dl_dailyLimit tier))
                then \<lparr>lc_allowed = False,
                      lc_message = Some (''Deposit would exceed daily limit of '' @ baht_sign @
                                         toLocaleString e (to_double (dl_dailyLimit tier)))\<rparr>
                else \<lparr>lc_allowed = True, lc_message = None\<rparr>)"
  using assms by (simp add: checkDepositLimits_def Let_def)

lemma selectDailyTotal_settled:
  "today \<le> now e \<Longrightarrow>
     selectDailyTotal (settled e r a uid st) uid today = selectDailyTotal st uid today + a"
  by (simp add: selectDailyTotal_def settled_def slip_row_def)

lemma selectUserLimit_no_tier:
  assumes "\<forall>row \<in> set (users st). u_id row = uid \<longrightarrow> u_depositLimitId row = None"
  shows "selectUserLimit st uid = None \<or> selectUserLimit st uid = Some None"
proof (cases "filter (\<lambda>u. u_id u = uid) (users st)")
  case Nil
  then show ?thesis by (simp add: selectUserLimit_def)
next
  case (Cons x xs)
  then have "x \<in> set (filter (\<lambda>u. u_id u = uid) (users st))" by simp
  then have "u_depositLimitId x = None" using assms by simp
  with Cons show ?thesis by (simp add: selectUserLimit_def)
qed

lemma checkDepositLimits_no_tier:
  assumes "\<forall>row \<in> set (users st). u_id row = uid \<longrightarrow> u_depositLimitId row = None"
    and "checkDepositLimits e uid a st = Inr chk"
  shows "chk = \<lparr>lc_allowed = False, lc_message = Some ''No deposit limit set for user''\<rparr>"
  using selectUserLimit_no_tier [OF assms(1)] assms(2)
  by (auto simp: checkDepositLimits_def split: if_splits)

subsection \<open>Whole numbers below \<open>2^53\<close> are doubles\<close>

lemma round_half_even_of_int: "round_half_even (of_int m) = m"
  by (simp add: round_half_even_def)

lemma to_double_of_int:
  assumes "\<bar>n\<bar> < 2 ^ 53"
  shows "to_double (of_int n) = Finite (of_int n)"
proof (cases "n = 0")
  case True
  then show ?thesis by (simp add: to_double_def)
next
  case False
  define a where "a = \<bar>n\<bar>"
  have a: "0 < a" "a < 2 ^ 53"
    using False assms by (simp_all add: a_def)
  have abs: "\<bar>of_int n :: rat\<bar> = of_int a"
    by (simp add: a_def)
  have q: "quotient_of (of_int a) = (a, 1)"
    using quotient_of_int [of a] by (simp add: Rat.of_int_def)
  have "bitlen a \<le> 53"
    using a by (simp add: bitlen_le_iff_power)
  moreover have "bitlen 1 = 1"
    by (simp add: bitlen_alt_def)
  ultimately have "floor_log2 (of_int a) \<le> 52"
    by (simp add: floor_log2_def q Let_def)
  then obtain j where e: "max (floor_log2 (of_int a) - 52) (- 1074) = - int j"
    by (metis add.inverse_inverse diff_le_0_iff_le max.boundedI neg_le_0_iff_le
        nonneg_int_cases zero_le_numeral)
  have p: "pow2 (- int j) = 1 / 2 ^ j"
    by (simp add: pow2_def)
  have scaled: "(of_int n :: rat) / pow2 (- int j) = of_int (n * 2 ^ j)"
    by (simp add: p)
  have unscaled: "(of_int (n * 2 ^ j) :: rat) * pow2 (- int j) = of_int n"
    by (simp add: p)
  have "(of_int a :: rat) < 2 ^ 53"
    using a(2) by (metis of_int_less_iff of_int_numeral of_int_power)
  also have "(2 :: rat) ^ 53 \<le> 2 ^ 1024"
    by (rule power_increasing) simp_all
  finally have small: "\<not> pow2 1024 \<le> \<bar>of_int n :: rat\<bar>"
    by (simp add: abs pow2_def)
  show ?thesis
    using False small
    by (simp add: to_double_def abs e Let_def scaled round_half_even_of_int unscaled del: of_int_mult of_int_power)
qed

lemma to_double_numeral [simp]:
  "numeral k < (2::int) ^ 53 \<Longrightarrow> to_double (numeral k) = Finite (numeral k)"
  using to_double_of_int [of "numeral k"] by simp

lemma to_double_zero [simp]: "to_double 0 = Finite 0"
  by (simp add: to_double_def)

lemma find_filter_hd:
  "find P xs = (case filter P xs of [] \<Rightarrow> None | x # _ \<Rightarrow> Some x)"
  by (induction xs) simp_all

lemma selectUserLimit_find:
  assumes "find (\<lambda>x. u_id x = uid) (users st) = Some row"
    and "u_depositLimitId row = Some d"
    and "find (\<lambda>l. dl_id l = d) (depositLimits st) = Some tier"
  shows "selectUserLimit st uid = Some (Some tier)"
  using assms by (simp add: selectUserLimit_def find_filter_hd split: list.splits)

lemma number_gt_exact:
  assumes "to_double T = Finite T" and "to_double a = Finite a"
    and "to_double (T + a) = Finite (T + a)" and "to_double L = Finite L"
  shows "number_gt (number_add (to_double T) (to_double a)) (to_double L) = (L < T + a)"
  by (simp add: assms)

lemma to_double_Ints:
  assumes "x \<in> \<int>" and "\<bar>x\<bar> < 2 ^ 53"
  shows "to_double x = Finite x"
proof -
  from assms(1) obtain n where x: "x = of_int n"
    by (auto elim: Ints_cases)
  have "(of_int \<bar>n\<bar> :: rat) < of_int (2 ^ 53)"
    using assms(2) by (simp add: x)
  then have "\<bar>n\<bar> < 2 ^ 53"
    by (simp only: of_int_less_iff)
  then show ?thesis
    by (simp add: x to_double_of_int)
qed



subsection \<open>Two sums of doubles, and the example store\<close>

lemma double_tenths:
  "number_gt (number_add (to_double (1 / 10)) (to_double (1 / 5))) (to_double (3 / 10))"
  by code_simp

lemma double_2_53:
  "\<not> number_gt (number_add (to_double 9007199254740992) (to_double 1)) (to_double 9007199254740992)"
  by code_simp

lemma ex_day_store_tier:
  "selectUserLimit (ex_day_store limit spent) 7 = Some (Some \<lparr>dl_id = 3, dl_dailyLimit = limit\<rparr>)"
  by (simp add: selectUserLimit_def ex_day_store_def ex_user_def)

lemma ex_day_store_total:
  "selectDailyTotal (ex_day_store limit spent) 7 1699981200000 = spent"
  by (simp add: selectDailyTotal_def ex_day_store_def ex_payment_def)

lemma ex_env_midnight: "setHours0 (ex_env user sd out faults) (now (ex_env user sd out faults)) = 1699981200000"
  by (simp add: ex_env_def)

lemmas ex_defs = ex_env_def ex_request_def ex_file_def ex_answer_def ex_slip_def ex_receiver_def
  ex_sender_def ex_user_def ex_store_def ex_payment_def

lemmas expected_defs = EXPECTED_RECEIVER_name_en_def EXPECTED_RECEIVER_account_def
  EXPECTED_RECEIVER_type_def

lemmas check_defs = verified_def validateReceiver_def checkSlipAlreadyUsed_def
  checkDepositLimits_def selectUserLimit_def selectDailyTotal_def tx_fault_def

subsection \<open>Settlement\<close>




subsection \<open>A reference is settled once\<close>

text \<open>
  C2. Let a first submission with the verified reference \<open>r\<close> settle, that is, change the
  store from \<open>st0\<close> to \<open>st1\<close>. Then it appended one row with the reference \<open>r\<close> and
  credited the user's balance rows by its verified amount, and every later submission
  whose verified payload bears \<open>r\<close> and passes the receiver check, run on any store \<open>st2\<close>
  that still holds the rows of \<open>st1\<close> (with the duplicate query answering), is answered
  \<open>slip_already_used\<close>, status 400, with the store as it found it and no call after the
  duplicate query. Run right after the first, it leaves the balances at the first
  submission's single credit.
\<close>

theorem duplicate_rejected:
  assumes "verified e1 rq1 (Some u) file1 data1 sd1"
    and "sd_transRef sd1 = Some r"
    and "POST e1 rq1 st0 = (resp1, st1, tr1)"
    and "st1 \<noteq> st0"
    and "verified e2 rq2 user2 file2 data2 sd2"
    and "validateReceiver data2"
    and "sd_transRef sd2 = Some r"
    and "SelectSlip \<notin> set (dbFaults e2)"
    and "set (paymentTransactions st1) \<subseteq> set (paymentTransactions st2)"
  shows "POST e2 rq2 st2 =
           (json 400 ''slip_already_used'' (Some ''This transfer slip has already been used''),
            st2, [ProviderCall (f_bytes file2), SlipQuery r]) \<and>
         POST e2 rq2 st1 =
           (json 400 ''slip_already_used'' (Some ''This transfer slip has already been used''),
            st1, [ProviderCall (f_bytes file2), SlipQuery r]) \<and>
         paymentTransactions st1 =
           paymentTransactions st0 @ [slip_row e1 r (sd_amount sd1) (u_id u)] \<and>
         map ub_balance (userBalances st1) =
           map (\<lambda>b. if ub_userId b = u_id u then ub_balance b + sd_amount sd1 else ub_balance b)
             (userBalances st0)"
proof -
  have "fst (snd (POST e1 rq1 st0)) \<noteq> st0"
    using assms(3,4) by simp
  with POST_store_cases [of e1 rq1 st0] obtain u' upl data sd r' where
    v: "verified e1 rq1 (Some u') upl data sd" "sd_transRef sd = Some r'" "r' \<noteq> []"
       "fst (snd (POST e1 rq1 st0)) = settled e1 r' (sd_amount sd) (u_id u') st0"
    by blast
  from verified_unique [OF assms(1) v(1)] v(2) assms(2) have same: "u' = u" "sd = sd1" "r' = r"
    by simp_all
  have st1: "st1 = settled e1 r (sd_amount sd1) (u_id u) st0"
    using v(4) assms(3) same by simp
  have ne: "r \<noteq> []"
    using v(3) same by simp
  have row: "slip_row e1 r (sd_amount sd1) (u_id u) \<in> set (paymentTransactions st1)"
    by (simp add: st1 settled_def)
  have ref: "pt_transRef (slip_row e1 r (sd_amount sd1) (u_id u)) = r"
    by (simp add: slip_row_def)
  from row assms(9) have row2: "slip_row e1 r (sd_amount sd1) (u_id u) \<in> set (paymentTransactions st2)"
    by blast
  note dup = POST_duplicate [OF assms(5) assms(6) assms(7) assms(8) _ ref ne]
  show ?thesis
    using dup [OF row2] dup [OF row]
    by (simp add: st1 settled_def credit_def)
qed

theorem duplicate_rejected_witness:
  "verified (ex_env (Some (ex_user (Some 3))) (ex_slip (Some ''REF-001'') 2000) (Inr ()) [])
     (ex_request ''2000'') (Some (ex_user (Some 3))) ex_file
     (ex_answer (ex_slip (Some ''REF-001'') 2000)) (ex_slip (Some ''REF-001'') 2000) \<and>
   validateReceiver (ex_answer (ex_slip (Some ''REF-001'') 2000)) \<and>
   fst (snd (POST (ex_env (Some (ex_user (Some 3))) (ex_slip (Some ''REF-001'') 2000) (Inr ()) [])
     (ex_request ''2000'') (ex_store (Some 3) 48000))) \<noteq> ex_store (Some 3) 48000 \<and>
   fst (POST (ex_env (Some (ex_user (Some 3))) (ex_slip (Some ''REF-001'') 2000) (Inr ()) [])
     (ex_request ''2000'')
     (fst (snd (POST (ex_env (Some (ex_user (Some 3))) (ex_slip (Some ''REF-001'') 2000) (Inr ()) [])
        (ex_request ''2000'') (ex_store (Some 3) 48000))))) =
     json 400 ''slip_already_used'' (Some ''This transfer slip has already been used'') \<and>
   map ub_balance (userBalances (fst (snd
     (POST (ex_env (Some (ex_user (Some 3))) (ex_slip (Some ''REF-001'') 2000) (Inr ()) [])
     (ex_request ''2000'')
     (fst (snd (POST (ex_env (Some (ex_user (Some 3))) (ex_slip (Some ''REF-001'') 2000) (Inr ()) [])
        (ex_request ''2000'') (ex_store (Some 3) 48000)))))))) = [2100]"
proof -
  let ?sd = "ex_slip (Some ''REF-001'') 2000"
  let ?u = "ex_user (Some 3)"
  let ?e = "ex_env (Some ?u) ?sd (Inr ()) []"
  let ?rq = "ex_request ''2000''"
  let ?st0 = "ex_store (Some 3) 48000"
  let ?st1 = "fst (snd (POST ?e ?rq ?st0))"
  have v: "verified ?e ?rq (Some ?u) ex_file (ex_answer ?sd) ?sd"
    by (simp add: check_defs ex_defs)
  have rcv: "validateReceiver (ex_answer ?sd)"
    by (simp add: check_defs ex_defs expected_defs)
  have sd: "sd_transRef ?sd = Some ''REF-001''" "''REF-001'' \<noteq> []" "u_id ?u \<noteq> 0"
    by (simp_all add: ex_defs)
  have dup: "checkSlipAlreadyUsed ?e ''REF-001'' ?st0 = Inr False"
    by (simp add: check_defs ex_defs)
  have lim: "checkDepositLimits ?e (u_id ?u) (sd_amount ?sd) ?st0 =
               Inr \<lparr>lc_allowed = True, lc_message = None\<rparr>"
    by (simp add: check_defs ex_defs)
  have noflt: "\<not> tx_fault ?e"
    by (simp add: check_defs ex_defs)
  have st1: "?st1 = settled ?e ''REF-001'' (sd_amount ?sd) (u_id ?u) ?st0"
    using POST_settles [OF v rcv sd dup lim] noflt by simp
  have "paymentTransactions ?st1 \<noteq> paymentTransactions ?st0"
    unfolding st1 by (simp add: settled_def)
  then have changed: "?st1 \<noteq> ?st0"
    by (rule payments_differ)
  have post: "POST ?e ?rq ?st0 = (fst (POST ?e ?rq ?st0), ?st1, snd (snd (POST ?e ?rq ?st0)))"
    by simp
  have sel: "SelectSlip \<notin> set (dbFaults ?e)"
    by (simp add: ex_defs)
  have bal: "map (\<lambda>b. if ub_userId b = u_id ?u then ub_balance b + sd_amount ?sd else ub_balance b)
               (userBalances ?st0) = [2100]"
    by (simp add: ex_defs)
  show ?thesis
    using duplicate_rejected [OF v sd(1) post changed v rcv sd(1) sel subset_refl] v rcv changed bal
    by simp
qed

subsection \<open>The notification\<close>

text \<open>
  C3, as stated, fails: when the awaited call of \<open>sendDepositNotification\<close> throws after
  the settlement has committed, the \<open>catch\<close> of lines 326-332 logs the error and answers
  \<open>server_error\<close> with status 500, not \<open>success\<close>. The example is the deposit of 2000 by
  the user 7 with a notification sink that throws: the balance is 2100 and the answer is
  \<open>server_error\<close>.
\<close>

theorem notification_failure_counterexample:
  "sendDepositNotification
     (ex_env (Some (ex_user (Some 3))) (ex_slip (Some ''REF-001'') 2000) (Inl NotifyError) [])
     \<lparr>n_userName = ''Somchai'', n_amount = 2000, n_transRef = ''REF-001''\<rparr> = Inl NotifyError \<and>
   POST (ex_env (Some (ex_user (Some 3))) (ex_slip (Some ''REF-001'') 2000) (Inl NotifyError) [])
     (ex_request ''2000'') (ex_store (Some 3) 48000) =
     (server_error,
      settled (ex_env (Some (ex_user (Some 3))) (ex_slip (Some ''REF-001'') 2000) (Inl NotifyError) [])
        ''REF-001'' 2000 7 (ex_store (Some 3) 48000),
      [ProviderCall ''PNG'', SlipQuery ''REF-001'', LimitQuery 7, Settlement ''REF-001'' 2000 (Some 7),
       Notification \<lparr>n_userName = ''Somchai'', n_amount = 2000, n_transRef = ''REF-001''\<rparr>,
       ConsoleError]) \<and>
   http_status server_error = 500 \<and>
   server_error \<noteq> success \<and>
   map ub_balance (userBalances
     (settled (ex_env (Some (ex_user (Some 3))) (ex_slip (Some ''REF-001'') 2000) (Inl NotifyError) [])
        ''REF-001'' 2000 7 (ex_store (Some 3) 48000))) = [2100]"
proof -
  let ?sd = "ex_slip (Some ''REF-001'') 2000"
  let ?u = "ex_user (Some 3)"
  let ?e = "ex_env (Some ?u) ?sd (Inl NotifyError) []"
  let ?rq = "ex_request ''2000''"
  let ?st0 = "ex_store (Some 3) 48000"
  have v: "verified ?e ?rq (Some ?u) ex_file (ex_answer ?sd) ?sd"
    by (simp add: check_defs ex_defs)
  have rcv: "validateReceiver (ex_answer ?sd)"
    by (simp add: check_defs ex_defs expected_defs)
  have sd: "sd_transRef ?sd = Some ''REF-001''" "''REF-001'' \<noteq> []" "u_id ?u \<noteq> 0"
    by (simp_all add: ex_defs)
  have dup: "checkSlipAlreadyUsed ?e ''REF-001'' ?st0 = Inr False"
    by (simp add: check_defs ex_defs)
  have lim: "checkDepositLimits ?e (u_id ?u) (sd_amount ?sd) ?st0 =
               Inr \<lparr>lc_allowed = True, lc_message = None\<rparr>"
    by (simp add: check_defs ex_defs)
  have noflt: "\<not> tx_fault ?e"
    by (simp add: check_defs ex_defs)
  have vals: "sd_amount ?sd = 2000" "u_id ?u = 7" "name_or_email ?u = ''Somchai''"
    "f_bytes ex_file = ''PNG''" "sendDepositNotification ?e = (\<lambda>_. Inl NotifyError)"
    by (simp_all add: ex_defs name_or_email_def)
  have post: "POST ?e ?rq ?st0 =
     (server_error, settled ?e ''REF-001'' 2000 7 ?st0,
      [ProviderCall ''PNG'', SlipQuery ''REF-001'', LimitQuery 7, Settlement ''REF-001'' 2000 (Some 7),
       Notification \<lparr>n_userName = ''Somchai'', n_amount = 2000, n_transRef = ''REF-001''\<rparr>,
       ConsoleError])"
    using POST_settles [OF v rcv sd dup lim] noflt by (simp add: vals)
  have bal: "map ub_balance (userBalances (settled ?e ''REF-001'' 2000 7 ?st0)) = [2100]"
    by (simp add: settled_def credit_def ex_store_def)
  have diff: "http_status server_error = 500" "server_error \<noteq> success"
    by (simp_all add: server_error_def success_def json_def)
  show ?thesis
    using post bal diff by (simp add: vals)
qed

text \<open>
  C3, amended. After a settlement that committed, the notification is attempted exactly
  once and the settlement stays whatever its outcome. When the awaited call returns, the
  handler answers \<open>success\<close>; when it throws, the handler logs the error and answers
  \<open>server_error\<close>.
\<close>

theorem notification_outcome:
  assumes "verified e rq (Some u) file data sd"
    and "validateReceiver data"
    and "sd_transRef sd = Some r" and "r \<noteq> []"
    and "u_id u \<noteq> 0"
    and "checkSlipAlreadyUsed e r st = Inr False"
    and "checkDepositLimits e (u_id u) (sd_amount sd) st = Inr chk" and "lc_allowed chk"
    and "\<not> tx_fault e"
    and "n = \<lparr>n_userName = name_or_email u, n_amount = sd_amount sd, n_transRef = r\<rparr>"
  shows "fst (snd (POST e rq st)) = settled e r (sd_amount sd) (u_id u) st \<and>
         (case sendDepositNotification e n of
            Inr ok \<Rightarrow>
              fst (POST e rq st) = success \<and>
              snd (snd (POST e rq st)) =
                [ProviderCall (f_bytes file), SlipQuery r, LimitQuery (u_id u),
                 Settlement r (sd_amount sd) (Some (u_id u)), Notification n]
          | Inl err \<Rightarrow>
              fst (POST e rq st) = server_error \<and>
              snd (snd (POST e rq st)) =
                [ProviderCall (f_bytes file), SlipQuery r, LimitQuery (u_id u),
                 Settlement r (sd_amount sd) (Some (u_id u)), Notification n, ConsoleError])"
  using POST_settles [OF assms(1-8)] assms(9,10)
  by (simp split: sum.splits)

theorem notification_outcome_witness:
  "verified (ex_env (Some (ex_user (Some 3))) (ex_slip (Some ''REF-001'') 2000) (Inr ()) [])
     (ex_request ''2000'') (Some (ex_user (Some 3))) ex_file
     (ex_answer (ex_slip (Some ''REF-001'') 2000)) (ex_slip (Some ''REF-001'') 2000) \<and>
   validateReceiver (ex_answer (ex_slip (Some ''REF-001'') 2000)) \<and>
   \<not> tx_fault (ex_env (Some (ex_user (Some 3))) (ex_slip (Some ''REF-001'') 2000) (Inr ()) []) \<and>
   fst (POST (ex_env (Some (ex_user (Some 3))) (ex_slip (Some ''REF-001'') 2000) (Inr ()) [])
     (ex_request ''2000'') (ex_store (Some 3) 48000)) = success \<and>
   snd (snd (POST (ex_env (Some (ex_user (Some 3))) (ex_slip (Some ''REF-001'') 2000) (Inr ()) [])
     (ex_request ''2000'') (ex_store (Some 3) 48000))) =
     [ProviderCall ''PNG'', SlipQuery ''REF-001'', LimitQuery 7, Settlement ''REF-001'' 2000 (Some 7),
      Notification \<lparr>n_userName = ''Somchai'', n_amount = 2000, n_transRef = ''REF-001''\<rparr>] \<and>
   verified (ex_env (Some (ex_user (Some 3))) (ex_slip (Some ''REF-001'') 2000) (Inl NotifyError) [])
     (ex_request ''2000'') (Some (ex_user (Some 3))) ex_file
     (ex_answer (ex_slip (Some ''REF-001'') 2000)) (ex_slip (Some ''REF-001'') 2000) \<and>
   \<not> tx_fault (ex_env (Some (ex_user (Some 3))) (ex_slip (Some ''REF-001'') 2000) (Inl NotifyError) []) \<and>
   fst (POST (ex_env (Some (ex_user (Some 3))) (ex_slip (Some ''REF-001'') 2000) (Inl NotifyError) [])
     (ex_request ''2000'') (ex_store (Some 3) 48000)) = server_error \<and>
   map ub_balance (userBalances (fst (snd
     (POST (ex_env (Some (ex_user (Some 3))) (ex_slip (Some ''REF-001'') 2000) (Inl NotifyError) [])
     (ex_request ''2000'') (ex_store (Some 3) 48000))))) = [2100]"
proof -
  let ?sd = "ex_slip (Some ''REF-001'') 2000"
  let ?u = "ex_user (Some 3)"
  let ?rq = "ex_request ''2000''"
  let ?st0 = "ex_store (Some 3) 48000"
  let ?n = "\<lparr>n_userName = ''Somchai'', n_amount = 2000, n_transRef = ''REF-001''\<rparr>"
  have rcv: "validateReceiver (ex_answer ?sd)"
    by (simp add: check_defs ex_defs expected_defs)
  have sd: "sd_transRef ?sd = Some ''REF-001''" "''REF-001'' \<noteq> []" "u_id ?u \<noteq> 0"
    by (simp_all add: ex_defs)
  have n: "?n = \<lparr>n_userName = name_or_email ?u, n_amount = sd_amount ?sd, n_transRef = ''REF-001''\<rparr>"
    by (simp add: ex_defs name_or_email_def)
  have vals: "sd_amount ?sd = 2000" "u_id ?u = 7" "f_bytes ex_file = ''PNG''"
    by (simp_all add: ex_defs)
  have inst: "verified (ex_env (Some ?u) ?sd out []) ?rq (Some ?u) ex_file (ex_answer ?sd) ?sd \<and>
      \<not> tx_fault (ex_env (Some ?u) ?sd out []) \<and>
      fst (snd (POST (ex_env (Some ?u) ?sd out []) ?rq ?st0)) =
        settled (ex_env (Some ?u) ?sd out []) ''REF-001'' 2000 7 ?st0 \<and>
      (case out of
         Inr ok \<Rightarrow>
           fst (POST (ex_env (Some ?u) ?sd out []) ?rq ?st0) = success \<and>
           snd (snd (POST (ex_env (Some ?u) ?sd out []) ?rq ?st0)) =
             [ProviderCall ''PNG'', SlipQuery ''REF-001'', LimitQuery 7,
              Settlement ''REF-001'' 2000 (Some 7), Notification ?n]
       | Inl err \<Rightarrow>
           fst (POST (ex_env (Some ?u) ?sd out []) ?rq ?st0) = server_error \<and>
           snd (snd (POST (ex_env (Some ?u) ?sd out []) ?rq ?st0)) =
             [ProviderCall ''PNG'', SlipQuery ''REF-001'', LimitQuery 7,
              Settlement ''REF-001'' 2000 (Some 7), Notification ?n, ConsoleError])" for out
  proof -
    let ?e = "ex_env (Some ?u) ?sd out []"
    have v: "verified ?e ?rq (Some ?u) ex_file (ex_answer ?sd) ?sd"
      by (simp add: check_defs ex_defs)
    have dup: "checkSlipAlreadyUsed ?e ''REF-001'' ?st0 = Inr False"
      by (simp add: check_defs ex_defs)
    have lim: "checkDepositLimits ?e (u_id ?u) (sd_amount ?sd) ?st0 =
                 Inr \<lparr>lc_allowed = True, lc_message = None\<rparr>"
      by (simp add: check_defs ex_defs)
    have allowed: "lc_allowed \<lparr>lc_allowed = True, lc_message = None\<rparr>"
      by simp
    have noflt: "\<not> tx_fault ?e"
      by (simp add: check_defs ex_defs)
    have out: "sendDepositNotification ?e ?n = out"
      by (simp add: ex_env_def)
    show ?thesis
      using notification_outcome [OF v rcv sd dup lim allowed noflt n] v noflt
      by (simp add: vals out split: sum.splits)
  qed
  have bal: "map ub_balance (userBalances (settled e ''REF-001'' 2000 7 ?st0)) = [2100]" for e
    by (simp add: settled_def credit_def ex_store_def)
  show ?thesis
    using inst [of "Inr ()"] inst [of "Inl NotifyError"] rcv
    by (simp add: bal)
qed

subsection \<open>The daily limit\<close>

text \<open>
  C4, as stated, fails: the comparison of lines 153-157 is made on doubles. With today's
  total 0.1, a verified amount of 0.2 and the limit 0.3, the sum of the two doubles is
  above the double of 0.3, and the deposit is rejected although \<open>T + a = L\<close>. With today's
  total and the limit both \<open>2^53\<close> and a verified amount of 1, the sum rounds back to
  \<open>2^53\<close>, and the deposit settles although \<open>T + a > L\<close>.
\<close>

theorem daily_limit_counterexample:
  "setHours0 (ex_env (Some (ex_user (Some 3))) (ex_slip (Some ''REF-001'') (1 / 5)) (Inr ()) [])
     (now (ex_env (Some (ex_user (Some 3))) (ex_slip (Some ''REF-001'') (1 / 5)) (Inr ()) [])) =
     1699981200000 \<and>
   selectDailyTotal (ex_day_store (3 / 10) (1 / 10)) 7 1699981200000 = 1 / 10 \<and>
   selectUserLimit (ex_day_store (3 / 10) (1 / 10)) 7 =
     Some (Some \<lparr>dl_id = 3, dl_dailyLimit = 3 / 10\<rparr>) \<and>
   sd_amount (ex_slip (Some ''REF-001'') (1 / 5)) = 1 / 5 \<and>
   1 / 10 + 1 / 5 = (3 / 10 :: rat) \<and>
   body_message (fst (POST
     (ex_env (Some (ex_user (Some 3))) (ex_slip (Some ''REF-001'') (1 / 5)) (Inr ()) [])
     (ex_request ''0.2'') (ex_day_store (3 / 10) (1 / 10)))) = ''deposit_limit_exceeded'' \<and>
   selectDailyTotal (ex_day_store 9007199254740992 9007199254740992) 7 1699981200000 =
     9007199254740992 \<and>
   selectUserLimit (ex_day_store 9007199254740992 9007199254740992) 7 =
     Some (Some \<lparr>dl_id = 3, dl_dailyLimit = 9007199254740992\<rparr>) \<and>
   (9007199254740992 :: rat) < 9007199254740992 + sd_amount (ex_slip (Some ''REF-001'') 1) \<and>
   fst (POST
     (ex_env (Some (ex_user (Some 3))) (ex_slip (Some ''REF-001'') 1) (Inr ()) [])
     (ex_request ''1'') (ex_day_store 9007199254740992 9007199254740992)) = success \<and>
   paymentTransactions (fst (snd (POST
     (ex_env (Some (ex_user (Some 3))) (ex_slip (Some ''REF-001'') 1) (Inr ()) [])
     (ex_request ''1'') (ex_day_store 9007199254740992 9007199254740992)))) =
     paymentTransactions (ex_day_store 9007199254740992 9007199254740992) @
       [slip_row (ex_env (Some (ex_user (Some 3))) (ex_slip (Some ''REF-001'') 1) (Inr ()) [])
          ''REF-001'' 1 7]"
proof -
  let ?u = "ex_user (Some 3)"
  have rcv: "validateReceiver (ex_answer (ex_slip (Some ''REF-001'') a))" for a
    by (simp add: check_defs ex_defs expected_defs)
  have v: "verified (ex_env (Some ?u) (ex_slip (Some ''REF-001'') a) (Inr ()) []) (ex_request c)
        (Some ?u) ex_file (ex_answer (ex_slip (Some ''REF-001'') a)) (ex_slip (Some ''REF-001'') a)" for a c
    by (simp add: check_defs ex_defs)
  have sd: "sd_transRef (ex_slip (Some ''REF-001'') a) = Some ''REF-001''" "''REF-001'' \<noteq> []"
    "u_id ?u \<noteq> 0" for a
    by (simp_all add: ex_defs)
  have dup: "checkSlipAlreadyUsed (ex_env (Some ?u) (ex_slip (Some ''REF-001'') a) (Inr ()) [])
      ''REF-001'' (ex_day_store l t) = Inr False" for a l t
    by (simp add: checkSlipAlreadyUsed_def ex_env_def ex_day_store_def ex_payment_def)
  have ok: "SelectUserLimit \<notin> set (dbFaults (ex_env (Some ?u) (ex_slip (Some ''REF-001'') a) (Inr ()) []))"
    "SelectDailyTotal \<notin> set (dbFaults (ex_env (Some ?u) (ex_slip (Some ''REF-001'') a) (Inr ()) []))"
    "\<not> tx_fault (ex_env (Some ?u) (ex_slip (Some ''REF-001'') a) (Inr ()) [])" for a
    by (simp_all add: ex_env_def tx_fault_def)
  have vals: "u_id ?u = 7" "sd_amount (ex_slip (Some ''REF-001'') a) = a" for a
    by (simp_all add: ex_defs)
  note chk = checkDepositLimits_configured [OF ex_day_store_tier ok(1,2), unfolded ex_env_midnight ex_day_store_total]
  have c1: "checkDepositLimits (ex_env (Some ?u) (ex_slip (Some ''REF-001'') (1 / 5)) (Inr ()) [])
      (u_id ?u) (sd_amount (ex_slip (Some ''REF-001'') (1 / 5))) (ex_day_store (3 / 10) (1 / 10)) =
      Inr \<lparr>lc_allowed = False,
           lc_message = Some (''Deposit would exceed daily limit of '' @ baht_sign @ ''50,000'')\<rparr>"
    unfolding vals chk using double_tenths by (simp add: ex_env_def)
  have c2: "checkDepositLimits (ex_env (Some ?u) (ex_slip (Some ''REF-001'') 1) (Inr ()) [])
      (u_id ?u) (sd_amount (ex_slip (Some ''REF-001'') 1))
      (ex_day_store 9007199254740992 9007199254740992) =
      Inr \<lparr>lc_allowed = True, lc_message = None\<rparr>"
    unfolding vals chk using double_2_53 by simp
  have p1: "body_message (fst (POST
     (ex_env (Some ?u) (ex_slip (Some ''REF-001'') (1 / 5)) (Inr ()) [])
     (ex_request ''0.2'') (ex_day_store (3 / 10) (1 / 10)))) = ''deposit_limit_exceeded''"
    using rcv sd dup c1
    by (simp add: POST_def POST_try_verified [OF v] POST_slip_fresh POST_limit_def json_def)
  have allowed: "lc_allowed \<lparr>lc_allowed = True, lc_message = None\<rparr>"
    by simp
  note p2 = POST_settles [OF v rcv sd dup c2 allowed, of "''1''"]
  show ?thesis
    using p1 p2 ok(3) [of 1]
    by (simp add: ex_day_store_total ex_day_store_tier vals settled_def ex_env_def)
qed

text \<open>
  C4, amended. Take a logged-in user; let \<open>L\<close> be the daily limit of the tier that the
  user's row names, \<open>T\<close> the sum of the amounts of the payment rows of this user created
  since the midnight of the server's local day, and \<open>a\<close> the amount the provider verified.
  A submission that reaches the limit check (its slip verifies, passes the receiver check
  and bears a fresh non-empty reference, and the two queries answer) is answered
  \<open>deposit_limit_exceeded\<close> exactly when the double of \<open>T\<close> plus the double of \<open>a\<close>, rounded
  to a double, is above the double of \<open>L\<close>; then the status is 400 and the store
  untouched. For whole numbers \<open>T\<close>, \<open>a\<close>, \<open>L\<close> with \<open>T\<close>, \<open>a\<close>, \<open>T + a\<close> and \<open>L\<close> below
  \<open>2^53\<close> in absolute value this is \<open>T + a > L\<close>, so that equality is allowed. When the
  deposit is not rejected and the transaction commits, it settles and the day's total
  becomes \<open>T + a\<close>. With \<open>L = 50000\<close> and \<open>T = 48000\<close>, 3000 is rejected, 2000 settles and
  makes the total 50000.
\<close>

theorem daily_limit_in_doubles:
  assumes "verified e rq (Some u) file data sd"
    and "validateReceiver data"
    and "sd_transRef sd = Some r" and "r \<noteq> []"
    and "checkSlipAlreadyUsed e r st = Inr False"
    and "find (\<lambda>x. u_id x = u_id u) (users st) = Some row"
    and "u_depositLimitId row = Some d"
    and "find (\<lambda>l. dl_id l = d) (depositLimits st) = Some tier"
    and "SelectUserLimit \<notin> set (dbFaults e)" and "SelectDailyTotal \<notin> set (dbFaults e)"
    and "T = sum_list (map pt_amount
               (filter (\<lambda>p. pt_userId p = u_id u \<and> setHours0 e (now e) \<le> pt_createdAt p)
                  (paymentTransactions st)))"
    and "a = sd_amount sd"
    and "L = dl_dailyLimit tier"
  shows "(body_message (fst (POST e rq st)) = ''deposit_limit_exceeded'') =
           number_gt (number_add (to_double T) (to_double a)) (to_double L) \<and>
         (T \<in> \<int> \<and> a \<in> \<int> \<and> L \<in> \<int> \<and>
          \<bar>T\<bar> < 2 ^ 53 \<and> \<bar>a\<bar> < 2 ^ 53 \<and> \<bar>T + a\<bar> < 2 ^ 53 \<and> \<bar>L\<bar> < 2 ^ 53 \<longrightarrow>
            (body_message (fst (POST e rq st)) = ''deposit_limit_exceeded'') = (L < T + a)) \<and>
         (number_gt (number_add (to_double T) (to_double a)) (to_double L) \<longrightarrow>
            POST e rq st =
              (json 400 ''deposit_limit_exceeded''
                 (Some (''Deposit would exceed daily limit of '' @ baht_sign @
                        toLocaleString e (to_double L))),
               st, [ProviderCall (f_bytes file), SlipQuery r, LimitQuery (u_id u)])) \<and>
         (\<not> number_gt (number_add (to_double T) (to_double a)) (to_double L) \<and>
          u_id u \<noteq> 0 \<and> \<not> tx_fault e \<and> setHours0 e (now e) \<le> now e \<longrightarrow>
            paymentTransactions (fst (snd (POST e rq st))) =
              paymentTransactions st @ [slip_row e r a (u_id u)] \<and>
            sum_list (map pt_amount
               (filter (\<lambda>p. pt_userId p = u_id u \<and> setHours0 e (now e) \<le> pt_createdAt p)
                  (paymentTransactions (fst (snd (POST e rq st)))))) = T + a)"
proof -
  let ?gt = "number_gt (number_add (to_double T) (to_double a)) (to_double L)"
  have T: "T = selectDailyTotal st (u_id u) (setHours0 e (now e))"
    by (simp add: assms(11) selectDailyTotal_def)
  note chk = checkDepositLimits_configured [OF selectUserLimit_find [OF assms(6-8)] assms(9,10),
      of a, folded T assms(13)]
  have rejected: "POST e rq st =
              (json 400 ''deposit_limit_exceeded''
                 (Some (''Deposit would exceed daily limit of '' @ baht_sign @
                        toLocaleString e (to_double L))),
               st, [ProviderCall (f_bytes file), SlipQuery r, LimitQuery (u_id u)])" if "?gt"
    using that assms(2-5) chk
    by (simp add: POST_def POST_try_verified [OF assms(1)] POST_slip_fresh POST_limit_def
        flip: assms(12))
  have lim: "POST_limit e (Some u) sd r st =
        emit (LimitQuery (u_id u)) (POST_record e (Some u) sd r st)" if "\<not> ?gt"
  proof -
    have "checkDepositLimits e (u_id u) (sd_amount sd) st =
        Inr \<lparr>lc_allowed = True, lc_message = None\<rparr>"
      using that chk by (simp flip: assms(12))
    then show ?thesis
      by (rule POST_limit_allowed) simp
  qed
  have msg: "body_message (fst (POST e rq st)) \<noteq> ''deposit_limit_exceeded''" if ok: "\<not> ?gt"
  proof (cases "fst (POST_record e (Some u) sd r st)")
    case (Inl err)
    then show ?thesis
      using assms(2-5)
      by (simp add: POST_fst POST_try_verified [OF assms(1)] POST_slip_fresh lim [OF ok]
          server_error_def json_def)
  next
    case (Inr resp)
    from POST_record_resp [OF this] Inr show ?thesis
      using assms(2-5)
      by (simp add: POST_fst POST_try_verified [OF assms(1)] POST_slip_fresh lim [OF ok]
          success_def json_def)
  qed
  have iff: "(body_message (fst (POST e rq st)) = ''deposit_limit_exceeded'') = ?gt"
    using rejected msg by (auto simp: json_def)
  have whole: "(body_message (fst (POST e rq st)) = ''deposit_limit_exceeded'') = (L < T + a)"
    if "T \<in> \<int>" "a \<in> \<int>" "L \<in> \<int>" "\<bar>T\<bar> < 2 ^ 53" "\<bar>a\<bar> < 2 ^ 53" "\<bar>T + a\<bar> < 2 ^ 53" "\<bar>L\<bar> < 2 ^ 53"
  proof -
    have "T + a \<in> \<int>" using that(1,2) by simp
    then have "?gt = (L < T + a)"
      using that by (intro number_gt_exact to_double_Ints)
    with iff show ?thesis by simp
  qed
  have settle: "fst (snd (POST e rq st)) = settled e r a (u_id u) st"
    if "\<not> ?gt" "u_id u \<noteq> 0" "\<not> tx_fault e"
    using that(2,3) assms(2-5)
    by (simp add: POST_store POST_try_verified [OF assms(1)] POST_slip_fresh lim [OF that(1)]
        POST_record_store assms(12))
  have total: "paymentTransactions (fst (snd (POST e rq st))) =
              paymentTransactions st @ [slip_row e r a (u_id u)] \<and>
            sum_list (map pt_amount
               (filter (\<lambda>p. pt_userId p = u_id u \<and> setHours0 e (now e) \<le> pt_createdAt p)
                  (paymentTransactions (fst (snd (POST e rq st)))))) = T + a"
    if "\<not> ?gt" "u_id u \<noteq> 0" "\<not> tx_fault e" "setHours0 e (now e) \<le> now e"
    using selectDailyTotal_settled [OF that(4), of r a "u_id u" st]
    by (simp add: settle [OF that(1-3)] T selectDailyTotal_def) (simp add: settled_def)
  show ?thesis
    using iff whole rejected total by blast
qed

theorem daily_limit_in_doubles_witness:
  "find (\<lambda>x. u_id x = 7) (users (ex_day_store 50000 48000)) = Some (ex_user (Some 3)) \<and>
   u_depositLimitId (ex_user (Some 3)) = Some 3 \<and>
   find (\<lambda>l. dl_id l = 3) (depositLimits (ex_day_store 50000 48000)) =
     Some \<lparr>dl_id = 3, dl_dailyLimit = 50000\<rparr> \<and>
   sum_list (map pt_amount
     (filter (\<lambda>p. pt_userId p = 7 \<and> 1699981200000 \<le> pt_createdAt p)
        (paymentTransactions (ex_day_store 50000 48000)))) = 48000 \<and>
   verified (ex_env (Some (ex_user (Some 3))) (ex_slip (Some ''REF-001'') 3000) (Inr ()) [])
     (ex_request ''3000'') (Some (ex_user (Some 3))) ex_file
     (ex_answer (ex_slip (Some ''REF-001'') 3000)) (ex_slip (Some ''REF-001'') 3000) \<and>
   POST (ex_env (Some (ex_user (Some 3))) (ex_slip (Some ''REF-001'') 3000) (Inr ()) [])
     (ex_request ''3000'') (ex_day_store 50000 48000) =
     (json 400 ''deposit_limit_exceeded''
        (Some (''Deposit would exceed daily limit of '' @ baht_sign @ ''50,000'')),
      ex_day_store 50000 48000, [ProviderCall ''PNG'', SlipQuery ''REF-001'', LimitQuery 7]) \<and>
   verified (ex_env (Some (ex_user (Some 3))) (ex_slip (Some ''REF-001'') 2000) (Inr ()) [])
     (ex_request ''2000'') (Some (ex_user (Some 3))) ex_file
     (ex_answer (ex_slip (Some ''REF-001'') 2000)) (ex_slip (Some ''REF-001'') 2000) \<and>
   body_message (fst (POST (ex_env (Some (ex_user (Some 3))) (ex_slip (Some ''REF-001'') 2000) (Inr ()) [])
     (ex_request ''2000'') (ex_day_store 50000 48000))) \<noteq> ''deposit_limit_exceeded'' \<and>
   sum_list (map pt_amount
     (filter (\<lambda>p. pt_userId p = 7 \<and> 1699981200000 \<le> pt_createdAt p)
        (paymentTransactions (fst (snd
           (POST (ex_env (Some (ex_user (Some 3))) (ex_slip (Some ''REF-001'') 2000) (Inr ()) [])
              (ex_request ''2000'') (ex_day_store 50000 48000))))))) = 50000"
proof -
  let ?u = "ex_user (Some 3)"
  let ?st0 = "ex_day_store 50000 48000"
  let ?tier = "\<lparr>dl_id = 3, dl_dailyLimit = 50000\<rparr>"
  have row: "find (\<lambda>x. u_id x = u_id ?u) (users ?st0) = Some ?u"
    and d: "u_depositLimitId ?u = Some 3"
    and tier: "find (\<lambda>l. dl_id l = 3) (depositLimits ?st0) = Some ?tier"
    by (simp_all add: ex_day_store_def ex_user_def)
  have rcv: "validateReceiver (ex_answer (ex_slip (Some ''REF-001'') a))" for a
    by (simp add: check_defs ex_defs expected_defs)
  have v: "verified (ex_env (Some ?u) (ex_slip (Some ''REF-001'') a) (Inr ()) []) (ex_request c)
        (Some ?u) ex_file (ex_answer (ex_slip (Some ''REF-001'') a)) (ex_slip (Some ''REF-001'') a)" for a c
    by (simp add: check_defs ex_defs)
  have sd: "sd_transRef (ex_slip (Some ''REF-001'') a) = Some ''REF-001''" "''REF-001'' \<noteq> []" for a
    by (simp_all add: ex_defs)
  have dup: "checkSlipAlreadyUsed (ex_env (Some ?u) (ex_slip (Some ''REF-001'') a) (Inr ()) [])
      ''REF-001'' ?st0 = Inr False" for a
    by (simp add: checkSlipAlreadyUsed_def ex_env_def ex_day_store_def ex_payment_def)
  have ok: "SelectUserLimit \<notin> set (dbFaults (ex_env (Some ?u) (ex_slip (Some ''REF-001'') a) (Inr ()) []))"
    "SelectDailyTotal \<notin> set (dbFaults (ex_env (Some ?u) (ex_slip (Some ''REF-001'') a) (Inr ()) []))" for a
    by (simp_all add: ex_defs)
  have T: "48000 = sum_list (map pt_amount
             (filter (\<lambda>p. pt_userId p = u_id ?u \<and>
                  setHours0 (ex_env (Some ?u) (ex_slip (Some ''REF-001'') a) (Inr ()) [])
                    (now (ex_env (Some ?u) (ex_slip (Some ''REF-001'') a) (Inr ()) [])) \<le> pt_createdAt p)
                (paymentTransactions ?st0)))" for a
    by (simp add: ex_day_store_def ex_payment_def ex_user_def ex_env_def)
  have a: "a = sd_amount (ex_slip (Some ''REF-001'') a)" for a
    by (simp add: ex_defs)
  have L: "50000 = dl_dailyLimit ?tier"
    by simp
  have vals: "u_id ?u = 7" "f_bytes ex_file = ''PNG''"
    "toLocaleString (ex_env (Some ?u) (ex_slip (Some ''REF-001'') a) (Inr ()) []) = (\<lambda>_. ''50,000'')"
    "\<not> tx_fault (ex_env (Some ?u) (ex_slip (Some ''REF-001'') a) (Inr ()) [])"
    "setHours0 (ex_env (Some ?u) (ex_slip (Some ''REF-001'') a) (Inr ()) []) 1700000000000 = 1699981200000"
    "now (ex_env (Some ?u) (ex_slip (Some ''REF-001'') a) (Inr ()) []) = 1700000000000" for a
    by (simp_all add: ex_defs tx_fault_def)
  note inst = daily_limit_in_doubles [OF v rcv sd dup row d tier ok T a L]
  have over: "number_gt (number_add (to_double 48000) (to_double 3000)) (to_double 50000)"
    and under: "\<not> number_gt (number_add (to_double 48000) (to_double 2000)) (to_double 50000)"
    by simp_all
  have rejected: "POST (ex_env (Some ?u) (ex_slip (Some ''REF-001'') 3000) (Inr ()) [])
       (ex_request ''3000'') ?st0 =
     (json 400 ''deposit_limit_exceeded''
        (Some (''Deposit would exceed daily limit of '' @ baht_sign @ ''50,000'')),
      ?st0, [ProviderCall ''PNG'', SlipQuery ''REF-001'', LimitQuery 7])"
    using inst [of 3000 "''3000''"] over by (simp add: vals)
  have T0: "sum_list (map pt_amount
     (filter (\<lambda>p. pt_userId p = 7 \<and> 1699981200000 \<le> pt_createdAt p)
        (paymentTransactions ?st0))) = 48000"
    by (simp add: ex_day_store_def ex_payment_def)
  have accepted: "body_message (fst (POST (ex_env (Some ?u) (ex_slip (Some ''REF-001'') 2000) (Inr ()) [])
       (ex_request ''2000'') ?st0)) \<noteq> ''deposit_limit_exceeded'' \<and>
     sum_list (map pt_amount
       (filter (\<lambda>p. pt_userId p = 7 \<and> 1699981200000 \<le> pt_createdAt p)
          (paymentTransactions (fst (snd
             (POST (ex_env (Some ?u) (ex_slip (Some ''REF-001'') 2000) (Inr ()) [])
                (ex_request ''2000'') ?st0)))))) = 50000"
    using inst [of 2000 "''2000''"] under T0
    by (simp add: vals slip_row_def)
  show ?thesis
    using rejected accepted row d tier T0 v
    by (simp add: ex_user_def)
qed

subsection \<open>The receiver check\<close>

text \<open>
  C5. For a request that reaches the receiver check (its upload is valid and the provider
  answered with a payload), \<open>validateReceiver\<close> accepts exactly when the receiver
  account is present and its Thai name, English name, bank account type and bank account
  number equal the four constants of \<open>EXPECTED_RECEIVER\<close>; the handler answers
  \<open>invalid_receiver\<close> exactly when it does not accept, then with status 400, the store
  untouched and nothing called but the provider; and the verdict is the same whatever the
  payload's amount and sender are.
\<close>

theorem receiver_check:
  assumes "verified e rq user file data sd"
  shows "(validateReceiver data \<longleftrightarrow>
           (\<exists>rcv acc nm bk.
              sd_receiver sd = Some rcv \<and> pty_account rcv = Some acc \<and>
              acc_name acc = Some nm \<and> acc_bank acc = Some bk \<and>
              name_th nm = Some EXPECTED_RECEIVER_name_th \<and>
              name_en nm = Some EXPECTED_RECEIVER_name_en \<and>
              bk_type bk = EXPECTED_RECEIVER_type \<and>
              bk_account bk = EXPECTED_RECEIVER_account)) \<and>
         (body_message (fst (POST e rq st)) = ''invalid_receiver'') = (\<not> validateReceiver data) \<and>
         (\<not> validateReceiver data \<longrightarrow>
            POST e rq st =
              (json 400 ''invalid_receiver'' (Some ''Transfer must be to the correct account only''),
               st, [ProviderCall (f_bytes file)])) \<and>
         validateReceiver (data\<lparr>es_data := Some (sd\<lparr>sd_amount := a, sd_sender := s\<rparr>)\<rparr>) =
           validateReceiver data"
proof -
  have sd: "es_data data = Some sd"
    using assms by (simp add: verified_def)
  have one: "validateReceiver data \<longleftrightarrow>
           (\<exists>rcv acc nm bk.
              sd_receiver sd = Some rcv \<and> pty_account rcv = Some acc \<and>
              acc_name acc = Some nm \<and> acc_bank acc = Some bk \<and>
              name_th nm = Some EXPECTED_RECEIVER_name_th \<and>
              name_en nm = Some EXPECTED_RECEIVER_name_en \<and>
              bk_type bk = EXPECTED_RECEIVER_type \<and>
              bk_account bk = EXPECTED_RECEIVER_account)"
    by (simp add: validateReceiver_iff sd)
  have rej: "POST e rq st =
                 (json 400 ''invalid_receiver'' (Some ''Transfer must be to the correct account only''),
                  st, [ProviderCall (f_bytes file)])" if "\<not> validateReceiver data"
    using that by (simp add: POST_def POST_try_verified [OF assms])
  have acc: "body_message (fst (POST e rq st)) \<noteq> ''invalid_receiver''" if ok: "validateReceiver data"
  proof (cases "fst (POST_slip e user sd st)")
    case (Inl err)
    then show ?thesis
      using ok by (simp add: POST_fst POST_try_verified [OF assms] server_error_def json_def)
  next
    case (Inr resp)
    from POST_slip_message [OF this] Inr show ?thesis
      using ok by (auto simp: POST_fst POST_try_verified [OF assms])
  qed
  have two: "(body_message (fst (POST e rq st)) = ''invalid_receiver'') = (\<not> validateReceiver data)"
    using rej acc by (auto simp: json_def)
  have four: "validateReceiver (data\<lparr>es_data := Some (sd\<lparr>sd_amount := a, sd_sender := s\<rparr>)\<rparr>) =
           validateReceiver data"
    by (simp add: validateReceiver_def sd)
  show ?thesis
    using one two rej four by simp
qed


theorem receiver_check_witness:
  "verified (ex_env None (ex_slip None 2000) (Inr ()) []) (ex_request ''2000'') None ex_file
     (ex_answer (ex_slip None 2000)) (ex_slip None 2000) \<and>
   validateReceiver (ex_answer (ex_slip None 2000)) \<and>
   body_message (fst (POST (ex_env None (ex_slip None 2000) (Inr ()) []) (ex_request ''2000'')
     (ex_store (Some 3) 0))) \<noteq> ''invalid_receiver'' \<and>
   verified (ex_env None ((ex_slip None 2000)\<lparr>sd_receiver := Some ex_sender\<rparr>) (Inr ()) [])
     (ex_request ''2000'') None ex_file
     (ex_answer ((ex_slip None 2000)\<lparr>sd_receiver := Some ex_sender\<rparr>))
     ((ex_slip None 2000)\<lparr>sd_receiver := Some ex_sender\<rparr>) \<and>
   \<not> validateReceiver (ex_answer ((ex_slip None 2000)\<lparr>sd_receiver := Some ex_sender\<rparr>)) \<and>
   POST (ex_env None ((ex_slip None 2000)\<lparr>sd_receiver := Some ex_sender\<rparr>) (Inr ()) [])
     (ex_request ''2000'') (ex_store (Some 3) 0) =
     (json 400 ''invalid_receiver'' (Some ''Transfer must be to the correct account only''),
      ex_store (Some 3) 0, [ProviderCall ''PNG''])"
proof -
  let ?good = "ex_slip None 2000"
  let ?bad = "(ex_slip None 2000)\<lparr>sd_receiver := Some ex_sender\<rparr>"
  have v1: "verified (ex_env None ?good (Inr ()) []) (ex_request ''2000'') None ex_file
              (ex_answer ?good) ?good"
    and v2: "verified (ex_env None ?bad (Inr ()) []) (ex_request ''2000'') None ex_file
              (ex_answer ?bad) ?bad"
    by (simp_all add: check_defs ex_defs)
  have r1: "validateReceiver (ex_answer ?good)"
    and r2: "\<not> validateReceiver (ex_answer ?bad)"
    by (simp_all add: check_defs ex_defs expected_defs)
  show ?thesis
    using receiver_check [OF v1, of "ex_store (Some 3) 0"]
      receiver_check [OF v2, of "ex_store (Some 3) 0"] v1 v2 r1 r2
    by (simp add: ex_file_def)
qed

subsection \<open>Rejections change nothing\<close>

text \<open>
  C6. A request answered with a rejection (status 400 and one of the codes
  \<open>invalid_payload\<close>, \<open>image_size_too_large\<close>, \<open>invalid_image\<close>, \<open>invalid_slip\<close>,
  \<open>invalid_receiver\<close>, \<open>slip_already_used\<close>, \<open>deposit_limit_exceeded\<close>, the last one
  also being the answer to a user without a tier) leaves the store as it was: no payment
  row is inserted and no balance row is changed.
\<close>

theorem rejection_frame:
  assumes "POST e rq st = (resp, st', tr)" and "rejection resp"
  shows "st' = st \<and> paymentTransactions st' = paymentTransactions st \<and>
         userBalances st' = userBalances st"
  using POST_rejection_frame [OF assms] by simp

theorem rejection_frame_witness:
  "POST (ex_env (Some (ex_user (Some 3))) (ex_slip (Some ''OLD-REF'') 2000) (Inr ()) [])
     (ex_request ''2000'') (ex_store (Some 3) 48000) =
     (json 400 ''slip_already_used'' (Some ''This transfer slip has already been used''),
      ex_store (Some 3) 48000, [ProviderCall ''PNG'', SlipQuery ''OLD-REF'']) \<and>
   rejection (json 400 ''slip_already_used'' (Some ''This transfer slip has already been used'')) \<and>
   paymentTransactions (fst (snd
     (POST (ex_env (Some (ex_user (Some 3))) (ex_slip (Some ''OLD-REF'') 2000) (Inr ()) [])
        (ex_request ''2000'') (ex_store (Some 3) 48000)))) = [ex_payment 48000] \<and>
   map ub_balance (userBalances (fst (snd
     (POST (ex_env (Some (ex_user (Some 3))) (ex_slip (Some ''OLD-REF'') 2000) (Inr ()) [])
        (ex_request ''2000'') (ex_store (Some 3) 48000))))) = [100]"
proof -
  let ?sd = "ex_slip (Some ''OLD-REF'') 2000"
  let ?e = "ex_env (Some (ex_user (Some 3))) ?sd (Inr ()) []"
  let ?st0 = "ex_store (Some 3) 48000"
  let ?resp = "json 400 ''slip_already_used'' (Some ''This transfer slip has already been used'')"
  have v: "verified ?e (ex_request ''2000'') (Some (ex_user (Some 3))) ex_file (ex_answer ?sd) ?sd"
    by (simp add: check_defs ex_defs)
  have rcv: "validateReceiver (ex_answer ?sd)"
    by (simp add: check_defs ex_defs expected_defs)
  have sd: "sd_transRef ?sd = Some ''OLD-REF''" "SelectSlip \<notin> set (dbFaults ?e)"
    "ex_payment 48000 \<in> set (paymentTransactions ?st0)" "pt_transRef (ex_payment 48000) = ''OLD-REF''"
    "''OLD-REF'' \<noteq> []"
    by (simp_all add: ex_defs)
  have post: "POST ?e (ex_request ''2000'') ?st0 = (?resp, ?st0, [ProviderCall (f_bytes ex_file), SlipQuery ''OLD-REF''])"
    by (rule POST_duplicate [OF v rcv sd])
  have rej: "rejection ?resp"
    by (simp add: rejection_def json_def)
  have st: "paymentTransactions ?st0 = [ex_payment 48000]" "map ub_balance (userBalances ?st0) = [100]"
    by (simp_all add: ex_store_def)
  show ?thesis
    using rejection_frame [OF post rej] post rej st
    by (simp add: ex_file_def)
qed

subsection \<open>A user without a tier\<close>

text \<open>
  C7, as stated, fails: the rejection of a user without a tier has no code of its own.
  The handler answers \<open>deposit_limit_exceeded\<close>, the code of an ordinary excess, and
  only the details, \<open>No deposit limit set for user\<close>, tell the case apart. The example
  is a deposit of 100 by the user 7, whose \<open>depositLimitId\<close> is null.
\<close>

theorem no_tier_code_counterexample:
  "u_depositLimitId (ex_user None) = None \<and>
   users (ex_store None 0) = [ex_user None] \<and>
   POST (ex_env (Some (ex_user None)) (ex_slip (Some ''REF-001'') 100) (Inr ()) [])
     (ex_request ''100'') (ex_store None 0) =
     (json 400 ''deposit_limit_exceeded'' (Some ''No deposit limit set for user''),
      ex_store None 0, [ProviderCall ''PNG'', SlipQuery ''REF-001'', LimitQuery 7]) \<and>
   body_message (json 400 ''deposit_limit_exceeded'' (Some ''No deposit limit set for user'')) \<noteq>
     ''no_limit_configured''"
proof -
  let ?sd = "ex_slip (Some ''REF-001'') 100"
  let ?u = "ex_user None"
  let ?e = "ex_env (Some ?u) ?sd (Inr ()) []"
  let ?st0 = "ex_store None 0"
  have v: "verified ?e (ex_request ''100'') (Some ?u) ex_file (ex_answer ?sd) ?sd"
    by (simp add: check_defs ex_defs)
  have rcv: "validateReceiver (ex_answer ?sd)"
    by (simp add: check_defs ex_defs expected_defs)
  have sd: "sd_transRef ?sd = Some ''REF-001''" "''REF-001'' \<noteq> []"
    by (simp_all add: ex_defs)
  have dup: "checkSlipAlreadyUsed ?e ''REF-001'' ?st0 = Inr False"
    by (simp add: check_defs ex_defs)
  have lim: "checkDepositLimits ?e (u_id ?u) (sd_amount ?sd) ?st0 =
      Inr \<lparr>lc_allowed = False, lc_message = Some ''No deposit limit set for user''\<rparr>"
    by (simp add: check_defs ex_defs)
  have vals: "u_id ?u = 7" "f_bytes ex_file = ''PNG''"
    by (simp_all add: ex_defs)
  have post: "POST ?e (ex_request ''100'') ?st0 =
     (json 400 ''deposit_limit_exceeded'' (Some ''No deposit limit set for user''),
      ?st0, [ProviderCall ''PNG'', SlipQuery ''REF-001'', LimitQuery 7])"
    using rcv sd dup lim
    by (simp add: POST_def POST_try_verified [OF v] POST_slip_fresh POST_limit_def vals)
  show ?thesis
    using post by (simp add: json_def ex_user_def ex_store_def)
qed

text \<open>
  C7, amended. For a logged-in user none of whose rows names a tier, no submission is
  settled: whatever the request, the store stays as it was. A submission that reaches the
  limit check (its slip verifies, passes the receiver check, bears a fresh non-empty
  reference, and the user's row is found) is answered with status 400, the code
  \<open>deposit_limit_exceeded\<close> and the details \<open>No deposit limit set for user\<close>.
\<close>

theorem no_tier_never_settled:
  assumes "getUser e = Inr (Some u)"
    and "\<forall>row \<in> set (users st). u_id row = u_id u \<longrightarrow> u_depositLimitId row = None"
  shows "fst (snd (POST e rq st)) = st \<and>
         (verified e rq (Some u) file data sd \<and> validateReceiver data \<and>
          sd_transRef sd = Some r \<and> r \<noteq> [] \<and> checkSlipAlreadyUsed e r st = Inr False \<and>
          SelectUserLimit \<notin> set (dbFaults e) \<and> u_id u \<in> u_id ` set (users st) \<longrightarrow>
            POST e rq st =
              (json 400 ''deposit_limit_exceeded'' (Some ''No deposit limit set for user''), st,
               [ProviderCall (f_bytes file), SlipQuery r, LimitQuery (u_id u)]))"
proof -
  have frame: "fst (snd (POST e rq st)) = st"
  proof (rule ccontr)
    assume "fst (snd (POST e rq st)) \<noteq> st"
    with POST_store_cases [of e rq st] obtain u' upl data' sd' chk where
      v: "verified e rq (Some u') upl data' sd'"
         "checkDepositLimits e (u_id u') (sd_amount sd') st = Inr chk" "lc_allowed chk"
      by blast
    from v(1) assms(1) have "u' = u" by (simp add: verified_def)
    with v(2) have "checkDepositLimits e (u_id u) (sd_amount sd') st = Inr chk" by simp
    from checkDepositLimits_no_tier [OF assms(2) this] v(3) show False by simp
  qed
  have reject: "POST e rq st =
              (json 400 ''deposit_limit_exceeded'' (Some ''No deposit limit set for user''), st,
               [ProviderCall (f_bytes file), SlipQuery r, LimitQuery (u_id u)])"
    if p: "verified e rq (Some u) file data sd" "validateReceiver data"
      "sd_transRef sd = Some r" "r \<noteq> []" "checkSlipAlreadyUsed e r st = Inr False"
      "SelectUserLimit \<notin> set (dbFaults e)" "u_id u \<in> u_id ` set (users st)"
  proof -
    have "filter (\<lambda>row. u_id row = u_id u) (users st) \<noteq> []"
      using p(7) by (auto simp: filter_empty_conv)
    then have "selectUserLimit st (u_id u) \<noteq> None"
      by (simp add: selectUserLimit_def split: list.splits)
    with selectUserLimit_no_tier [OF assms(2)] have "selectUserLimit st (u_id u) = Some None"
      by simp
    then have "checkDepositLimits e (u_id u) (sd_amount sd) st =
        Inr \<lparr>lc_allowed = False, lc_message = Some ''No deposit limit set for user''\<rparr>"
      using p(6) by (simp add: checkDepositLimits_def)
    then show ?thesis
      using p(2-5) by (simp add: POST_def POST_try_verified [OF p(1)] POST_slip_fresh POST_limit_def)
  qed
  show ?thesis
    using frame reject by blast
qed

theorem no_tier_never_settled_witness:
  "getUser (ex_env (Some (ex_user None)) (ex_slip (Some ''REF-001'') 100) (Inr ()) []) =
     Inr (Some (ex_user None)) \<and>
   map u_depositLimitId (users (ex_store None 0)) = [None] \<and>
   fst (snd (POST (ex_env (Some (ex_user None)) (ex_slip (Some ''REF-001'') 100) (Inr ()) [])
     (ex_request ''100'') (ex_store None 0))) = ex_store None 0 \<and>
   fst (POST (ex_env (Some (ex_user None)) (ex_slip (Some ''REF-001'') 100) (Inr ()) [])
     (ex_request ''100'') (ex_store None 0)) =
     json 400 ''deposit_limit_exceeded'' (Some ''No deposit limit set for user'')"
proof -
  let ?sd = "ex_slip (Some ''REF-001'') 100"
  let ?u = "ex_user None"
  let ?e = "ex_env (Some ?u) ?sd (Inr ()) []"
  let ?st0 = "ex_store None 0"
  have g: "getUser ?e = Inr (Some ?u)"
    by (simp add: ex_env_def)
  have none: "\<forall>row \<in> set (users ?st0). u_id row = u_id ?u \<longrightarrow> u_depositLimitId row = None"
    by (simp add: ex_store_def ex_user_def)
  have v: "verified ?e (ex_request ''100'') (Some ?u) ex_file (ex_answer ?sd) ?sd"
    by (simp add: check_defs ex_defs)
  have rcv: "validateReceiver (ex_answer ?sd)"
    by (simp add: check_defs ex_defs expected_defs)
  have sd: "sd_transRef ?sd = Some ''REF-001''" "''REF-001'' \<noteq> []"
    by (simp_all add: ex_defs)
  have dup: "checkSlipAlreadyUsed ?e ''REF-001'' ?st0 = Inr False"
    by (simp add: check_defs ex_defs)
  have ok: "SelectUserLimit \<notin> set (dbFaults ?e)" "u_id ?u \<in> u_id ` set (users ?st0)"
    by (simp_all add: ex_defs)
  have tiers: "map u_depositLimitId (users ?st0) = [None]"
    by (simp add: ex_store_def ex_user_def)
  show ?thesis
    using no_tier_never_settled [OF g none, of "ex_request ''100''" ex_file "ex_answer ?sd" ?sd "''REF-001''"]
      v rcv sd dup ok g tiers
    by simp
qed

subsection \<open>A payload without a reference\<close>

text \<open>
  C8. When the provider's payload passes the receiver check and its \<open>transRef\<close> is
  absent or empty, the handler answers \<open>success\<close> with status 200, leaves the store as
  it was, and calls nothing but the provider: no duplicate query, no limit query, no
  settlement and no notification.
\<close>

theorem empty_reference_success:
  assumes "verified e rq user file data sd"
    and "validateReceiver data"
    and "sd_transRef sd = None \<or> sd_transRef sd = Some []"
  shows "POST e rq st = (success, st, [ProviderCall (f_bytes file)]) \<and>
         http_status success = 200 \<and> body_message success = ''success''"
  using assms(2,3)
  by (auto simp: POST_def POST_try_verified [OF assms(1)] POST_slip_def success_def json_def)

theorem empty_reference_success_witness:
  "verified (ex_env (Some (ex_user (Some 3))) (ex_slip (Some []) 2000) (Inr ()) [])
     (ex_request ''2000'') (Some (ex_user (Some 3))) ex_file
     (ex_answer (ex_slip (Some []) 2000)) (ex_slip (Some []) 2000) \<and>
   validateReceiver (ex_answer (ex_slip (Some []) 2000)) \<and>
   sd_transRef (ex_slip (Some []) 2000) = Some [] \<and>
   POST (ex_env (Some (ex_user (Some 3))) (ex_slip (Some []) 2000) (Inr ()) [])
     (ex_request ''2000'') (ex_store (Some 3) 48000) =
     (success, ex_store (Some 3) 48000, [ProviderCall ''PNG''])"
proof -
  let ?sd = "ex_slip (Some []) 2000"
  have v: "verified (ex_env (Some (ex_user (Some 3))) ?sd (Inr ()) [])
             (ex_request ''2000'') (Some (ex_user (Some 3))) ex_file (ex_answer ?sd) ?sd"
    by (simp add: check_defs ex_defs)
  have r: "validateReceiver (ex_answer ?sd)"
    by (simp add: check_defs ex_defs expected_defs)
  have t: "sd_transRef ?sd = None \<or> sd_transRef ?sd = Some []"
    by (simp add: ex_defs)
  show ?thesis
    using empty_reference_success [OF v r t, of "ex_store (Some 3) 48000"] v r
    by (simp add: ex_file_def ex_slip_def)
qed

subsection \<open>The claimed amount\<close>

text \<open>
  C9. Two requests whose forms agree on every field but \<open>amount\<close> get the same response,
  the same store and the same calls: the handler reads the \<open>slip\<close> field only, and the
  amount it checks and settles is the provider's.
\<close>

theorem claimed_amount_ignored:
  assumes "rq_formData rq1 = Inr f1" and "rq_formData rq2 = Inr f2"
    and "\<forall>k. k \<noteq> ''amount'' \<longrightarrow> map_of f1 k = map_of f2 k"
  shows "POST e rq1 st = POST e rq2 st"
proof -
  have "map_of f1 ''slip'' = map_of f2 ''slip''"
    using assms(3) by simp
  then have "POST_try e rq1 st = POST_try e rq2 st"
    using assms(1,2) by (simp add: POST_try_def split: sum.splits)
  then show ?thesis
    by (simp add: POST_def)
qed

theorem claimed_amount_ignored_witness:
  "POST (ex_env (Some (ex_user (Some 3))) (ex_slip (Some ''REF-001'') 2000) (Inr ()) [])
     (ex_request ''2000'') (ex_store (Some 3) 48000) =
   POST (ex_env (Some (ex_user (Some 3))) (ex_slip (Some ''REF-001'') 2000) (Inr ()) [])
     (ex_request ''999999'') (ex_store (Some 3) 48000)"
proof -
  have f: "rq_formData (ex_request ''2000'') =
             Inr [(''slip'', FileValue ex_file), (''amount'', TextValue ''2000'')]"
    "rq_formData (ex_request ''999999'') =
             Inr [(''slip'', FileValue ex_file), (''amount'', TextValue ''999999'')]"
    by (simp_all add: ex_request_def)
  have agree: "\<forall>k. k \<noteq> ''amount'' \<longrightarrow>
      map_of [(''slip'', FileValue ex_file), (''amount'', TextValue ''2000'')] k =
      map_of [(''slip'', FileValue ex_file), (''amount'', TextValue ''999999'')] k"
    by simp
  show ?thesis
    by (rule claimed_amount_ignored [OF f agree])
qed

subsection \<open>A submission without a session\<close>

text \<open>
  C10. Without a session user, a slip that verifies, passes the receiver check and bears
  a fresh non-empty reference skips the limit check (no limit query is made),
  \<open>recordVerifiedSlip\<close> throws \<open>User ID is required\<close> with the store untouched, and the
  handler answers \<open>server_error\<close> with status 500.
\<close>

theorem anonymous_settlement_fails:
  assumes "verified e rq None file data sd"
    and "validateReceiver data"
    and "sd_transRef sd = Some r" and "r \<noteq> []"
    and "checkSlipAlreadyUsed e r st = Inr False"
  shows "POST e rq st =
           (server_error, st,
            [ProviderCall (f_bytes file), SlipQuery r, Settlement r (sd_amount sd) None, ConsoleError]) \<and>
         recordVerifiedSlip e r (sd_amount sd) None st = (Inl UserIdRequired, st) \<and>
         http_status server_error = 500 \<and> body_message server_error = ''server_error''"
  using assms(2-)
  by (simp add: POST_def POST_try_verified [OF assms(1)] POST_slip_fresh POST_limit_def
      POST_record_def recordVerifiedSlip_def server_error_def json_def)

theorem anonymous_settlement_fails_witness:
  "verified (ex_env None (ex_slip (Some ''REF-001'') 2000) (Inr ()) [])
     (ex_request ''2000'') None ex_file
     (ex_answer (ex_slip (Some ''REF-001'') 2000)) (ex_slip (Some ''REF-001'') 2000) \<and>
   validateReceiver (ex_answer (ex_slip (Some ''REF-001'') 2000)) \<and>
   checkSlipAlreadyUsed (ex_env None (ex_slip (Some ''REF-001'') 2000) (Inr ()) []) ''REF-001''
     (ex_store (Some 3) 48000) = Inr False \<and>
   POST (ex_env None (ex_slip (Some ''REF-001'') 2000) (Inr ()) [])
     (ex_request ''2000'') (ex_store (Some 3) 48000) =
     (server_error, ex_store (Some 3) 48000,
      [ProviderCall ''PNG'', SlipQuery ''REF-001'', Settlement ''REF-001'' 2000 None, ConsoleError])"
proof -
  let ?sd = "ex_slip (Some ''REF-001'') 2000"
  let ?e = "ex_env None ?sd (Inr ()) []"
  have v: "verified ?e (ex_request ''2000'') None ex_file (ex_answer ?sd) ?sd"
    by (simp add: check_defs ex_defs)
  have r: "validateReceiver (ex_answer ?sd)"
    by (simp add: check_defs ex_defs expected_defs)
  have t: "sd_transRef ?sd = Some ''REF-001''" "''REF-001'' \<noteq> []"
    by (simp_all add: ex_defs)
  have d: "checkSlipAlreadyUsed ?e ''REF-001'' (ex_store (Some 3) 48000) = Inr False"
    by (simp add: check_defs ex_defs)
  show ?thesis
    using anonymous_settlement_fails [OF v r t d] v r d
    by (simp add: ex_file_def ex_slip_def)
qed

end
